theory Spec2Isabelle
  imports Complex_Main
begin

section \<open>JavaScript strings\<close>

text \<open>
  Strings are lists of characters (the bytes of the text). Four characters cannot be
  written inside a string literal and get a name: the double quote, the apostrophe, the
  backtick and the backslash. Case conversion, \<open>trim\<close> and the white-space and word
  classes are the ASCII ones: letters and white space outside ASCII are left as they are.
\<close>

definition dq :: string where "dq = [CHR 0x22]"
definition sq :: string where "sq = [CHR 0x27]"
definition bt :: string where "bt = [CHR 0x60]"
definition bsl :: string where "bsl = [CHR 0x5C]"
definition nl :: string where "nl = [CHR 0x0A]"

definition lower_table :: "(char \<times> char) list" where
  "lower_table = zip ''ABCDEFGHIJKLMNOPQRSTUVWXYZ'' ''abcdefghijklmnopqrstuvwxyz''"

definition lower_char :: "char \<Rightarrow> char" where
  "lower_char c = (case map_of lower_table c of Some d \<Rightarrow> d | None \<Rightarrow> c)"

definition toLowerCase :: "string \<Rightarrow> string" where
  "toLowerCase s = map lower_char s"

fun starts_with :: "string \<Rightarrow> string \<Rightarrow> bool" where
  "starts_with s [] = True"
| "starts_with [] (p # ps) = False"
| "starts_with (c # cs) (p # ps) = (c = p \<and> starts_with cs ps)"

fun str_includes :: "string \<Rightarrow> string \<Rightarrow> bool" where
  "str_includes [] p = (p = [])"
| "str_includes (c # cs) p = (starts_with (c # cs) p \<or> str_includes cs p)"

definition is_space :: "char \<Rightarrow> bool" where
  "is_space c = (c \<in> set [CHR '' '', CHR 0x09, CHR 0x0A, CHR 0x0B, CHR 0x0C, CHR 0x0D])"

definition is_word :: "char \<Rightarrow> bool" where
  "is_word c = (c \<in> set ''abcdefghijklmnopqrstuvwxyzABCDEFGHIJKLMNOPQRSTUVWXYZ0123456789_'')"

definition trim :: "string \<Rightarrow> string" where
  "trim s = rev (dropWhile is_space (rev (dropWhile is_space s)))"

text \<open>\<open>s.replace(p, r)\<close> with a string pattern: the first occurrence only.\<close>

fun replace_first :: "string \<Rightarrow> string \<Rightarrow> string \<Rightarrow> string" where
  "replace_first [] p r = (if p = [] then r else [])"
| "replace_first (c # cs) p r =
     (if starts_with (c # cs) p then r @ drop (length p) (c # cs)
      else c # replace_first cs p r)"

section \<open>Regular expressions\<close>

text \<open>
  The handler's regular expressions quantify single-character classes only, so a pattern
  is a list of items: one character of a class, a greedy star, plus or option on a class,
  and a mark that records the position of a capture-group boundary. \<open>rx_match\<close> is the
  backtracking matcher at a fixed position: it returns the inputs left at the marks and
  the input left after the match.
\<close>

datatype rx = RChar "char \<Rightarrow> bool" | RStar "char \<Rightarrow> bool" | RPlus "char \<Rightarrow> bool"
  | ROpt "char \<Rightarrow> bool" | RMark

fun rx_match :: "rx list \<Rightarrow> string \<Rightarrow> (string list \<times> string) option" where
  "rx_match [] s = Some ([], s)"
| "rx_match (RMark # r) s =
     (case rx_match r s of None \<Rightarrow> None | Some (ms, e) \<Rightarrow> Some (s # ms, e))"
| "rx_match (RChar p # r) [] = None"
| "rx_match (RChar p # r) (c # cs) = (if p c then rx_match r cs else None)"
| "rx_match (RPlus p # r) [] = None"
| "rx_match (RPlus p # r) (c # cs) = (if p c then rx_match (RStar p # r) cs else None)"
| "rx_match (RStar p # r) [] = rx_match r []"
| "rx_match (RStar p # r) (c # cs) =
     (if p c then (case rx_match (RStar p # r) cs of Some x \<Rightarrow> Some x | None \<Rightarrow> rx_match r (c # cs))
      else rx_match r (c # cs))"
| "rx_match (ROpt p # r) [] = rx_match r []"
| "rx_match (ROpt p # r) (c # cs) =
     (if p c then (case rx_match r cs of Some x \<Rightarrow> Some x | None \<Rightarrow> rx_match r (c # cs))
      else rx_match r (c # cs))"

text \<open>The leftmost match: the text before it, the marks, the text after it.\<close>

fun rx_search :: "rx list \<Rightarrow> string \<Rightarrow> (string \<times> string list \<times> string) option" where
  "rx_search r [] = (case rx_match r [] of None \<Rightarrow> None | Some (ms, e) \<Rightarrow> Some ([], ms, e))"
| "rx_search r (c # cs) =
     (case rx_match r (c # cs) of
        Some (ms, e) \<Rightarrow> Some ([], ms, e)
      | None \<Rightarrow> (case rx_search r cs of None \<Rightarrow> None
                 | Some (pre, ms, e) \<Rightarrow> Some (c # pre, ms, e)))"

definition between :: "string \<Rightarrow> string \<Rightarrow> string" where
  "between s e = take (length s - length e) s"

text \<open>\<open>s.match(r)\<close> without the \<open>g\<close> flag: the matched text and the groups, or null.\<close>

fun groups_of :: "string list \<Rightarrow> string list" where
  "groups_of (a # b # ms) = between a b # groups_of ms"
| "groups_of ms = []"

definition rx_find :: "rx list \<Rightarrow> string \<Rightarrow> (string \<times> string list) option" where
  "rx_find r s =
     (case rx_search r s of None \<Rightarrow> None
      | Some (pre, ms, e) \<Rightarrow> Some (between (drop (length pre) s) e, groups_of ms))"

definition lit :: "string \<Rightarrow> rx list" where
  "lit s = map (\<lambda>c. RChar (\<lambda>d. d = c)) s"

definition lit_i :: "string \<Rightarrow> rx list" where
  "lit_i s = map (\<lambda>c. RChar (\<lambda>d. lower_char d = lower_char c)) s"

definition any_char :: "char \<Rightarrow> bool" where
  "any_char c = True"

text \<open>
  The replacement text of \<open>replace\<close>: \<open>$$\<close>, \<open>$&\<close>, \<open>$`\<close>, \<open>$'\<close> and \<open>$n\<close>
  (also written \<open>$0n\<close>) for an existing group \<open>n\<close> are substituted, any other \<open>$\<close> stands
  for itself. The patterns here have at most one group.
\<close>

definition digit_val :: "char \<Rightarrow> nat option" where
  "digit_val c = map_of (zip ''0123456789'' [0..<10]) c"

definition group_ref :: "string list \<Rightarrow> char \<Rightarrow> string option" where
  "group_ref gs d =
     (case digit_val d of None \<Rightarrow> None
      | Some n \<Rightarrow> if 1 \<le> n \<and> n \<le> length gs then Some (gs ! (n - 1)) else None)"

fun substitute :: "string \<Rightarrow> string \<Rightarrow> string list \<Rightarrow> string \<Rightarrow> string \<Rightarrow> string" where
  "substitute [] m gs pre post = []"
| "substitute [c] m gs pre post = [c]"
| "substitute (c # d # r) m gs pre post =
     (if c \<noteq> CHR ''$'' then c # substitute (d # r) m gs pre post
      else if d = CHR ''$'' then CHR ''$'' # substitute r m gs pre post
      else if d = CHR ''&'' then m @ substitute r m gs pre post
      else if d = CHR 0x60 then pre @ substitute r m gs pre post
      else if d = CHR 0x27 then post @ substitute r m gs pre post
      else (case group_ref gs d of
              Some g \<Rightarrow> g @ substitute r m gs pre post
            | None \<Rightarrow>
               (case r of
                  e # r' \<Rightarrow>
                    (if d = CHR ''0'' then
                       (case group_ref gs e of
                          Some g \<Rightarrow> g @ substitute r' m gs pre post
                        | None \<Rightarrow> c # substitute (d # r) m gs pre post)
                     else c # substitute (d # r) m gs pre post)
                | [] \<Rightarrow> c # substitute (d # r) m gs pre post)))"

text \<open>\<open>s.replace(r, t)\<close> without the \<open>g\<close> flag: the leftmost match only.\<close>

definition rx_replace :: "rx list \<Rightarrow> string \<Rightarrow> string \<Rightarrow> string" where
  "rx_replace r t s =
     (case rx_search r s of None \<Rightarrow> s
      | Some (pre, ms, e) \<Rightarrow>
          pre @ substitute t (between (drop (length pre) s) e) (groups_of ms) pre e @ e)"

text \<open>
  \<open>s.replace(r, t)\<close> with the \<open>g\<close> flag, for a replacement text without \<open>$\<close>: every
  match, left to right, the search resuming after each match. The counter is the number
  of characters of the current match still to skip.
\<close>

fun rx_replace_all_from :: "rx list \<Rightarrow> string \<Rightarrow> nat \<Rightarrow> string \<Rightarrow> string" where
  "rx_replace_all_from r t k [] = (if k = 0 \<and> rx_match r [] \<noteq> None then t else [])"
| "rx_replace_all_from r t (Suc k) (c # cs) = rx_replace_all_from r t k cs"
| "rx_replace_all_from r t 0 (c # cs) =
     (case rx_match r (c # cs) of
        None \<Rightarrow> c # rx_replace_all_from r t 0 cs
      | Some (ms, e) \<Rightarrow>
          (if length e = Suc (length cs) then t @ c # rx_replace_all_from r t 0 cs
           else t @ rx_replace_all_from r t (length cs - length e) cs))"

definition rx_replace_all :: "rx list \<Rightarrow> string \<Rightarrow> string \<Rightarrow> string" where
  "rx_replace_all r t s = rx_replace_all_from r t 0 s"

section \<open>Values, collaborators and responses\<close>

text \<open>
  The values that cross the handler's boundary are JSON values. A missing property is
  \<open>None\<close> (JavaScript's \<open>undefined\<close>). Reading a property of \<open>null\<close> raises a
  TypeError, which every caller below writes out; on any other value it is a lookup.
\<close>

datatype jsval = JNull | JBool bool | JNum real | JStr string | JArr "jsval list"
  | JObj "(string \<times> jsval) list"

fun truthy :: "jsval \<Rightarrow> bool" where
  "truthy JNull = False"
| "truthy (JBool b) = b"
| "truthy (JNum n) = (n \<noteq> 0)"
| "truthy (JStr s) = (s \<noteq> [])"
| "truthy (JArr xs) = True"
| "truthy (JObj fs) = True"

fun js_prop :: "jsval \<Rightarrow> string \<Rightarrow> jsval option" where
  "js_prop (JObj fs) k = map_of fs k"
| "js_prop v k = None"

fun js_join :: "string \<Rightarrow> string list \<Rightarrow> string" where
  "js_join sep [] = []"
| "js_join sep [x] = x"
| "js_join sep (x # y # ys) = x @ sep @ js_join sep (y # ys)"

text \<open>What a \<open>catch\<close> clause may receive: an error with a message, or the engine's TypeError.\<close>

datatype thrown = Error string | TypeError

record cache_entry =
  entry_response :: string
  entry_sqlQuery :: "jsval option"
  entry_resultCount :: nat

record model_info =
  name :: string
  supportedGenerationMethods :: "string list option"

datatype models_response = FetchFailed | NotOk | Models "model_info list"

text \<open>
  A content stream: the chunks in arrival order (\<open>None\<close> where \<open>chunk.text()\<close> throws) and
  the message of the error that ends the iteration early, if one does.
\<close>

type_synonym content_stream = "string option list \<times> string option"

text \<open>
  Everything outside the handler for one request: the identity provider, the environment
  variables, the parsed request body, the cache lookup, the model listing, the model
  endpoints (one per call site, by model name and prompt; \<open>Inl\<close> is the text that the
  handler reads off the error thrown, \<open>geminiError?.message || String(geminiError)\<close> where
  it computes \<open>errorMsg\<close>), the database (by connection string and statement), the
  schema text and
  the system prompt that the handler imports, and the built-ins \<open>JSON.parse\<close>,
  \<open>JSON.stringify(_, null, 2)\<close> and the conversion of a non-string value to text that a
  template literal or \<open>join\<close> applies. \<open>Inl\<close> in \<open>currentUser\<close> and \<open>request_json\<close> is a
  rejected promise. The cache lookup and the cache write do not throw, and the client
  keeps reading a stream it was given, so that the stream controller does not throw.
\<close>

record world =
  currentUser :: "string + string option"
  GEMINI_API_KEY :: "string option"
  DATABASE_URL :: "string option"
  SUPABASE_DB_URL :: "string option"
  NODE_ENV :: "string option"
  request_json :: "string + jsval"
  getCachedResponse :: "string \<Rightarrow> string \<Rightarrow> cache_entry option"
  list_models :: models_response
  getDatabaseSchema :: string
  AI_COACH_SYSTEM_PROMPT :: string
  JSON_parse :: "string \<Rightarrow> jsval option"
  JSON_stringify :: "jsval \<Rightarrow> string"
  String_of :: "jsval \<Rightarrow> string"
  type_error_message :: string
  sql_model :: "string \<Rightarrow> string \<Rightarrow> string + string"
  sql_alt_model :: "string \<Rightarrow> string \<Rightarrow> string + string"
  auto_model :: "string \<Rightarrow> string \<Rightarrow> string + string"
  answer_stream :: "string \<Rightarrow> string \<Rightarrow> string + content_stream"
  answer_model :: "string \<Rightarrow> string \<Rightarrow> string + string"
  answer_alt_model :: "string \<Rightarrow> string \<Rightarrow> string + string"
  pool_query :: "string \<Rightarrow> string \<Rightarrow> string + jsval list"

text \<open>The calls the handler makes to its collaborators, in order.\<close>

datatype origin = Primary | Auxiliary

datatype stage = SqlGeneration | ContextQuery | Synthesis

datatype event =
    CacheGet string string
  | CacheSet string string string "jsval option" nat
  | ListModels
  | Generate stage string string
  | GenerateStream string string
  | RunQuery origin string
  | Enqueue string
  | Close

record data_info =
  info_sqlQuery :: jsval
  info_resultCount :: nat
  hasData :: bool
  sampleData :: "jsval list option"

record debug_info =
  debug_sqlQuery :: jsval
  debug_resultCount :: nat

record reply_body =
  reply :: string
  cached :: bool
  debug :: "debug_info option"
  dataInfo :: "data_info option"

text \<open>
  The responses: a JSON body with its status, or \<open>TextStream\<close>, the 200 response whose
  body is the stream fed by the \<open>Enqueue\<close> and \<open>Close\<close> events. An error body carries the
  \<open>error\<close> text; its \<open>details\<close>, a stack trace in development, is not represented.
\<close>

datatype body = ErrorBody string | ReplyBody reply_body

datatype response = Json nat body | TextStream

definition js_text :: "world \<Rightarrow> jsval \<Rightarrow> string" where
  "js_text w v = (case v of JStr s \<Rightarrow> s | _ \<Rightarrow> String_of w v)"

definition env_or :: "string option \<Rightarrow> string option \<Rightarrow> string option" where
  "env_or a b = (case a of Some s \<Rightarrow> if s \<noteq> [] then Some s else b | None \<Rightarrow> b)"

definition env_set :: "string option \<Rightarrow> bool" where
  "env_set a = (case a of Some s \<Rightarrow> s \<noteq> [] | None \<Rightarrow> False)"

section \<open>The query executor\<close>

definition runSupabaseQuery :: "world \<Rightarrow> string \<Rightarrow> string + jsval list" where
  "runSupabaseQuery w sql =
     (case env_or (DATABASE_URL w) (SUPABASE_DB_URL w) of
        None \<Rightarrow> Inl (''DATABASE_URL or SUPABASE_DB_URL environment variable is required for raw SQL queries. '' @
                    ''You can find this in your Supabase project settings under Database > Connection String. '' @
                    ''Format: postgresql://postgres:[PASSWORD]@[HOST]:5432/postgres'')
      | Some dbUrl \<Rightarrow>
          (if dbUrl = [] then
             Inl (''DATABASE_URL or SUPABASE_DB_URL environment variable is required for raw SQL queries. '' @
                  ''You can find this in your Supabase project settings under Database > Connection String. '' @
                  ''Format: postgresql://postgres:[PASSWORD]@[HOST]:5432/postgres'')
           else (case pool_query w dbUrl sql of
                   Inr rows \<Rightarrow> Inr rows
                 | Inl m \<Rightarrow> Inl (''Failed to execute SQL query: '' @ m))))"

section \<open>Model selection and the alternative models\<close>

definition supports_generateContent :: "model_info \<Rightarrow> bool" where
  "supports_generateContent m =
     (case supportedGenerationMethods m of
        None \<Rightarrow> False
      | Some ms \<Rightarrow> ''generateContent'' \<in> set ms \<or> ''GENERATE_CONTENT'' \<in> set ms)"

definition availableModel :: "world \<Rightarrow> string option" where
  "availableModel w =
     (case list_models w of
        FetchFailed \<Rightarrow> None
      | NotOk \<Rightarrow> None
      | Models models \<Rightarrow>
          (case find supports_generateContent models of
             None \<Rightarrow> None
           | Some m \<Rightarrow> Some (replace_first (name m) ''models/'' [])))"

definition modelName :: "world \<Rightarrow> string" where
  "modelName w =
     (case availableModel w of
        None \<Rightarrow> ''gemini-pro''
      | Some n \<Rightarrow> if n \<noteq> [] then n else ''gemini-pro'')"

definition altModels :: "string list" where
  "altModels = [''models/gemini-pro'', ''gemini-pro'', ''models/gemini-1.5-flash'',
                ''gemini-1.5-flash'', ''models/gemini-1.5-pro'', ''gemini-1.5-pro'']"

text \<open>
  The loop over the alternative models: the first one that answers ends the loop; one
  that throws is skipped. \<open>after\<close> is what the loop body does with the text before it
  breaks (the synthesis loop writes the cache there, the SQL loop does nothing).
\<close>

fun try_alt_models ::
  "(string \<Rightarrow> string \<Rightarrow> string + string) \<Rightarrow> stage \<Rightarrow> string \<Rightarrow> (string \<Rightarrow> event list)
     \<Rightarrow> string list \<Rightarrow> string option \<times> event list" where
  "try_alt_models g st prompt after [] = (None, [])"
| "try_alt_models g st prompt after (m # ms) =
     (case g m prompt of
        Inr text \<Rightarrow> (Some text, Generate st m prompt # after text)
      | Inl err \<Rightarrow>
          (case try_alt_models g st prompt after ms of
             (r, evs) \<Rightarrow> (r, Generate st m prompt # evs)))"

definition model_not_found :: "string \<Rightarrow> bool" where
  "model_not_found errorMsg = (str_includes errorMsg ''404'' \<or> str_includes errorMsg ''not found'')"

section \<open>SQL generation, extraction and scoping\<close>

definition sqlGenerationPrompt :: "world \<Rightarrow> string \<Rightarrow> string \<Rightarrow> string" where
  "sqlGenerationPrompt w uid message =
     js_join nl
       [''You are a PostgreSQL/Supabase SQL expert. Generate a SQL query to answer the user'' @ sq @ ''s question.'',
        '''',
        ''Database Schema:'',
        getDatabaseSchema w,
        '''',
        ''User Question: '' @ message,
        '''',
        ''Important Rules:'',
        ''1. Generate ONLY valid PostgreSQL SQL that is compatible with Supabase'',
        ''2. Use ONLY tables and columns that exist in the schema above'',
        ''3. Always filter by user_id = '' @ sq @ uid @ sq @ '' to ensure users only see their own data'',
        ''4. Return ONLY the SQL query, no explanations or markdown formatting'',
        ''5. For SELECT queries, limit results to a reasonable number (e.g., LIMIT 50 for lists, no limit for counts/sums)'',
        ''6. Use proper PostgreSQL syntax (e.g., use TEXT instead of VARCHAR, use DECIMAL for money)'',
        ''7. Focus on the MOST RELEVANT data for the question - don'' @ sq @ ''t query everything'',
        ''8. If the question is about properties, prioritize the properties table and related tables (rent_roll_units, work_requests)'',
        ''9. If the question is about subscriptions, focus on the subscriptions table'',
        ''10. If the question is about clients, focus on ghl_clients and ghl_weekly_metrics tables'',
        '''',
        ''Return the SQL query in this JSON format:'',
        ''{'',
        ''  '' @ dq @ ''sql_query'' @ dq @ '': '' @ dq @ ''SELECT ... FROM ... WHERE user_id = '' @ sq @ uid @ sq @ '' ...'' @ dq,
        ''}'']"

definition generate_sql :: "world \<Rightarrow> string \<Rightarrow> string \<Rightarrow> (thrown + string) \<times> event list" where
  "generate_sql w model prompt =
     (case sql_model w model prompt of
        Inr text \<Rightarrow> (Inr text, [Generate SqlGeneration model prompt])
      | Inl errorMsg \<Rightarrow>
          (if model_not_found errorMsg then
             (case try_alt_models (sql_alt_model w) SqlGeneration prompt (\<lambda>text. []) altModels of
                (None, evs) \<Rightarrow>
                  (Inl (Error (''All Gemini models failed. Please check your API key and available models. Original error: '' @ errorMsg)), Generate SqlGeneration model prompt # evs)
              | (Some sqlResponse, evs) \<Rightarrow>
                  (if sqlResponse = [] then
                     (Inl (Error (''All Gemini models failed. Please check your API key and available models. Original error: '' @ errorMsg)), Generate SqlGeneration model prompt # evs)
                   else (Inr sqlResponse, Generate SqlGeneration model prompt # evs)))
           else (Inl (Error (''Failed to generate SQL query: '' @ errorMsg)), [Generate SqlGeneration model prompt])))"

definition json_envelope_rx :: "rx list" where
  "json_envelope_rx =
     [RChar (\<lambda>c. c = CHR ''{''), RStar any_char] @ lit (dq @ ''sql_query'' @ dq) @
     [RStar any_char, RChar (\<lambda>c. c = CHR ''}'')]"

definition fence_sql_rx :: "rx list" where
  "fence_sql_rx = lit (bt @ bt @ bt @ ''sql'') @ [ROpt (\<lambda>c. c = CHR 0x0A)]"

definition fence_json_rx :: "rx list" where
  "fence_json_rx = lit (bt @ bt @ bt @ ''json'') @ [ROpt (\<lambda>c. c = CHR 0x0A)]"

definition fence_rx :: "rx list" where
  "fence_rx = lit (bt @ bt @ bt) @ [ROpt (\<lambda>c. c = CHR 0x0A)]"

definition sql_field_rx :: "rx list" where
  "sql_field_rx =
     lit (dq @ ''sql_query'' @ dq) @
     [RStar is_space, RChar (\<lambda>c. c = CHR '':''), RStar is_space, RChar (\<lambda>c. c = CHR 0x22),
      RMark, RPlus (\<lambda>c. c \<noteq> CHR 0x22), RMark, RChar (\<lambda>c. c = CHR 0x22)]"

definition escaped_newline_rx :: "rx list" where
  "escaped_newline_rx = lit (bsl @ ''n'')"

definition from_rx :: "rx list" where
  "from_rx = lit_i ''FROM'' @ [RPlus is_space, RMark, RPlus is_word, RMark]"

definition where_rx :: "rx list" where
  "where_rx = lit_i ''WHERE'' @ [RPlus is_space]"

definition strip_fences :: "string \<Rightarrow> string" where
  "strip_fences s =
     trim (rx_replace_all fence_rx [] (rx_replace_all fence_json_rx [] (rx_replace_all fence_sql_rx [] s)))"

text \<open>
  The \<open>try\<close> part of both extractions: the text to parse is the envelope match or the
  whole response; \<open>None\<close> where \<open>JSON.parse\<close> throws or the parsed value is \<open>null\<close>
  (reading its property throws); otherwise
  \<open>parsed.sql_query || parsed.sql || response.trim()\<close>, which need not be a string.
\<close>

definition parsed_sql :: "world \<Rightarrow> string \<Rightarrow> jsval option" where
  "parsed_sql w text =
     (let jsonStr = (case rx_find json_envelope_rx text of Some (m, gs) \<Rightarrow> m | None \<Rightarrow> text) in
      case JSON_parse w jsonStr of
        None \<Rightarrow> None
      | Some JNull \<Rightarrow> None
      | Some parsed \<Rightarrow>
          Some (case js_prop parsed ''sql_query'' of
                  Some v \<Rightarrow>
                    (if truthy v then v
                     else (case js_prop parsed ''sql'' of
                             Some u \<Rightarrow> if truthy u then u else JStr (trim text)
                           | None \<Rightarrow> JStr (trim text)))
                | None \<Rightarrow>
                    (case js_prop parsed ''sql'' of
                       Some u \<Rightarrow> if truthy u then u else JStr (trim text)
                     | None \<Rightarrow> JStr (trim text))))"

definition extract_sql :: "world \<Rightarrow> string \<Rightarrow> jsval" where
  "extract_sql w sqlResponse =
     (case parsed_sql w sqlResponse of
        Some v \<Rightarrow> v
      | None \<Rightarrow>
          (let stripped = strip_fences sqlResponse in
           case rx_find sql_field_rx stripped of
             Some (m, g # gs) \<Rightarrow> JStr (rx_replace_all escaped_newline_rx '' '' g)
           | _ \<Rightarrow> JStr stripped))"

definition extract_auto_sql :: "world \<Rightarrow> string \<Rightarrow> jsval" where
  "extract_auto_sql w autoQueryText =
     (case parsed_sql w autoQueryText of
        Some v \<Rightarrow> v
      | None \<Rightarrow> JStr (strip_fences autoQueryText))"

text \<open>Lines 211 to 220: the user filter, on a query that is a string.\<close>

definition ensure_user_filter :: "string \<Rightarrow> string \<Rightarrow> string" where
  "ensure_user_filter uid q =
     (if \<not> str_includes (toLowerCase q) ''user_id'' \<and> \<not> str_includes (toLowerCase q) ''where'' then
        (if str_includes (toLowerCase q) ''select'' then
           rx_replace from_rx (''FROM $1 WHERE user_id = '' @ sq @ uid @ sq) q
         else q)
      else if str_includes (toLowerCase q) ''where'' \<and>
              \<not> str_includes (toLowerCase q) (''user_id = '' @ sq @ uid @ sq) then
        rx_replace where_rx (''WHERE user_id = '' @ sq @ uid @ sq @ '' AND '') q
      else q)"

text \<open>
  Steps 1 and 2. Every error of the generation, and the TypeError of calling
  \<open>toLowerCase\<close> on a query that is not a string, ends in the outer \<open>catch\<close>, which
  leaves the query as it was and the rows empty; an error of the executor ends in the
  inner one.
\<close>

definition primary_query ::
  "world \<Rightarrow> string \<Rightarrow> string \<Rightarrow> string \<Rightarrow> jsval \<times> jsval list \<times> event list" where
  "primary_query w uid model message =
     (case generate_sql w model (sqlGenerationPrompt w uid message) of
        (Inl e, evs) \<Rightarrow> (JStr [], [], evs)
      | (Inr sqlResponse, evs) \<Rightarrow>
          (case extract_sql w sqlResponse of
             JStr q \<Rightarrow>
               (case runSupabaseQuery w (ensure_user_filter uid q) of
                  Inr rows \<Rightarrow>
                    (JStr (ensure_user_filter uid q), rows,
                     evs @ [RunQuery Primary (ensure_user_filter uid q)])
                | Inl queryError \<Rightarrow>
                    (JStr (ensure_user_filter uid q), [],
                     evs @ [RunQuery Primary (ensure_user_filter uid q)]))
           | v \<Rightarrow> (v, [], evs)))"

section \<open>The page-context query\<close>

definition autoQueryPrompt :: "world \<Rightarrow> string \<Rightarrow> jsval \<Rightarrow> string" where
  "autoQueryPrompt w uid pageContext =
     js_join nl
       [''Generate a SQL query to get the most relevant data for a user on the '' @ dq @ js_text w pageContext @ dq @ '' page. '',
        ''        '',
        ''Database Schema:'',
        getDatabaseSchema w,
        '''',
        ''User ID: '' @ uid,
        '''',
        ''Generate a query that would give useful context about what'' @ sq @ ''s on this page. For example:'',
        ''- If page is '' @ dq @ ''properties'' @ dq @ '': Get all properties with key metrics (address, status, cash flow, ROE)'',
        ''- If page is '' @ dq @ ''dashboard'' @ dq @ '': Get portfolio summary (total properties, total cash flow, top performers)'',
        ''- If page is '' @ dq @ ''agency'' @ dq @ '': Get all clients with their metrics'',
        ''- If page is '' @ dq @ ''business'' @ dq @ '': Get campaigns data'',
        '''',
        ''Return ONLY the SQL query in JSON format:'',
        ''{'',
        ''  '' @ dq @ ''sql_query'' @ dq @ '': '' @ dq @ ''SELECT ... FROM ... WHERE user_id = '' @ sq @ uid @ sq @ '' ...'' @ dq,
        ''}'']"

definition mutation_free :: "string \<Rightarrow> bool" where
  "mutation_free q =
     (\<not> str_includes (toLowerCase q) ''insert'' \<and> \<not> str_includes (toLowerCase q) ''update'' \<and>
      \<not> str_includes (toLowerCase q) ''delete'')"

text \<open>
  Step 3, for a truthy page context. The generation error and the TypeError of a truthy
  query that is not a string end in the outer \<open>catch\<close>, an executor error in the inner
  one; the rows stay empty in each.
\<close>

definition auto_query ::
  "world \<Rightarrow> string \<Rightarrow> string \<Rightarrow> jsval \<Rightarrow> jsval \<times> jsval list \<times> event list" where
  "auto_query w uid model pageContext =
     (case auto_model w model (autoQueryPrompt w uid pageContext) of
        Inl err \<Rightarrow> (JStr [], [], [Generate ContextQuery model (autoQueryPrompt w uid pageContext)])
      | Inr autoQueryText \<Rightarrow>
          (case extract_auto_sql w autoQueryText of
             JStr q \<Rightarrow>
               (if q \<noteq> [] \<and> mutation_free q then
                  (case runSupabaseQuery w q of
                     Inr rows \<Rightarrow>
                       (JStr q, rows,
                        [Generate ContextQuery model (autoQueryPrompt w uid pageContext), RunQuery Auxiliary q])
                   | Inl err \<Rightarrow>
                       (JStr q, [],
                        [Generate ContextQuery model (autoQueryPrompt w uid pageContext), RunQuery Auxiliary q]))
                else (JStr q, [], [Generate ContextQuery model (autoQueryPrompt w uid pageContext)]))
           | v \<Rightarrow> (v, [], [Generate ContextQuery model (autoQueryPrompt w uid pageContext)])))"

section \<open>The synthesis prompt\<close>

definition page_guidance :: "string \<Rightarrow> string" where
  "page_guidance p =
     (if p = ''dashboard'' then
        '' Focus on overall portfolio health, top performers, and biggest opportunities across all their businesses.''
      else if p = ''properties'' \<or> p = ''property'' then
        '' Focus on individual property performance, cash flow analysis, ROE calculations, and property-specific opportunities.''
      else if p = ''agency'' \<or> p = ''agency management'' then
        '' Focus on client performance, marketing ROI, growth strategies, and agency metrics.''
      else if p = ''business'' \<or> p = ''business hub'' then
        '' Focus on campaigns performance, revenue trends, business metrics, and marketing optimization.''
      else if p = ''campaigns'' then
        '' Focus on campaign ROI, performance metrics, budget optimization, and marketing strategy.''
      else [])"

definition is_object :: "jsval \<Rightarrow> bool" where
  "is_object v = (case v of JNull \<Rightarrow> True | JArr xs \<Rightarrow> True | JObj fs \<Rightarrow> True | _ \<Rightarrow> False)"

text \<open>
  Step 4. A truthy page context that is not a string has no \<open>toLowerCase\<close>: the call
  throws a TypeError outside every inner \<open>try\<close>.
\<close>

definition page_context_info :: "world \<Rightarrow> jsval \<Rightarrow> jsval \<Rightarrow> jsval list \<Rightarrow> thrown + string" where
  "page_context_info w pageContext pageData autoQueryResults =
     (case (if truthy pageContext then
              (case pageContext of
                 JStr p \<Rightarrow>
                   Inr ((js_join nl
       ['''',
        ''**Current Page Context:** The user is on the '' @ dq @ js_text w pageContext @ dq @ '' page.'']) @
                        page_guidance (toLowerCase p))
               | _ \<Rightarrow> Inl TypeError)
            else Inr []) of
        Inl e \<Rightarrow> Inl e
      | Inr info \<Rightarrow>
          Inr (info @
               (if truthy pageData \<and> is_object pageData then
                  js_join nl
       ['''',
        '''',
        ''**Page-Specific Data Available:**'',
        JSON_stringify w pageData,
        '''',
        ''Use this data to provide context-aware insights. Reference specific numbers, properties, campaigns, or metrics visible on the page.'']
                else []) @
               (if autoQueryResults \<noteq> [] then
                  js_join nl
       ['''',
        '''',
        ''**Automatic Context Data (from database):**'',
        JSON_stringify w (JArr autoQueryResults),
        '''',
        ''This data is automatically available from their database. USE IT in your response - reference specific numbers, properties, or metrics.'']
                else [])))"

text \<open>Step 5: the rows and the statements that the data summary renders.\<close>

definition allQueryResults :: "jsval list \<Rightarrow> jsval list \<Rightarrow> jsval list" where
  "allQueryResults queryResults autoQueryResults =
     (if queryResults \<noteq> [] then queryResults else autoQueryResults)"

definition allSQLQueries :: "world \<Rightarrow> jsval \<Rightarrow> jsval \<Rightarrow> string" where
  "allSQLQueries w sqlQuery autoQuerySQL =
     js_join ''; '' (map (js_text w) (filter truthy [sqlQuery, autoQuerySQL]))"

definition data_found :: "world \<Rightarrow> jsval list \<Rightarrow> string \<Rightarrow> string" where
  "data_found w results queries =
     js_join nl
       [''Here'' @ sq @ ''s the data from the database:'',
        '''',
        JSON_stringify w (JArr results),
        '''',
        ''**SQL Query Used:** '' @ (if queries \<noteq> [] then queries else ''Auto-query based on page context''),
        '''',
        ''**Database Schema Context:**'',
        getDatabaseSchema w,
        '''',
        ''**CRITICAL:** You MUST reference the actual data numbers in your response. Use specific property addresses, exact dollar amounts, percentages, and metrics from the data above. Be BRIEF - 1-3 sentences max unless they ask for details.'']"

definition no_data_found :: "string \<Rightarrow> string" where
  "no_data_found queries =
     js_join nl
       [''No specific data found in the database for this question. '',
        '''',
        ''**SQL Query Attempted:** '' @ (if queries \<noteq> [] then queries else ''No SQL query was generated''),
        '''',
        ''**Note:** Provide brief real estate coaching advice based on page context and general principles. Keep it SHORT - 1-2 sentences.'']"

definition dataSummary :: "world \<Rightarrow> jsval \<Rightarrow> jsval \<Rightarrow> jsval list \<Rightarrow> jsval list \<Rightarrow> string" where
  "dataSummary w sqlQuery autoQuerySQL queryResults autoQueryResults =
     (if allQueryResults queryResults autoQueryResults \<noteq> [] then
        data_found w (allQueryResults queryResults autoQueryResults)
          (allSQLQueries w sqlQuery autoQuerySQL)
      else no_data_found (allSQLQueries w sqlQuery autoQuerySQL))"

definition analysisPrompt :: "world \<Rightarrow> string \<Rightarrow> string \<Rightarrow> string \<Rightarrow> string" where
  "analysisPrompt w message pageContextInfo summary =
     js_join nl
       [AI_COACH_SYSTEM_PROMPT w,
        '''',
        ''**User'' @ sq @ ''s Question:** '' @ dq @ message @ dq,
        pageContextInfo,
        '''',
        summary,
        '''',
        ''**Your Response Guidelines:**'',
        ''- **BE BRIEF**: 1-3 sentences MAXIMUM unless they explicitly ask for details, analysis, or '' @ dq @ ''tell me more'' @ dq,
        ''- Use the page context automatically - reference what'' @ sq @ ''s on their screen'',
        ''- Reference specific numbers from the database OR page data (e.g., '' @ dq @ ''You have 5 properties'' @ dq @ '', '' @ dq @ ''Your campaign ROAS is 3.2x'' @ dq @ '', '' @ dq @ ''Property at 123 Main St has 18% ROE'' @ dq @ '')'',
        ''- Be energetic and motivational but data-driven'',
        ''- Provide ONE actionable insight, not multiple'',
        ''- Optional: Ask ONE quick follow-up question'',
        ''- If analyzing properties: mention ROE, cash flow, or key metric briefly'',
        ''- If analyzing campaigns: mention ROAS or key metric briefly'',
        ''- Always use their actual data - don'' @ sq @ ''t speak in generalities'',
        '''',
        ''**CRITICAL:** Default to SHORT responses. Only expand if they explicitly ask for more detail, analysis, or explanation.'',
        '''',
        ''**Remember:** You'' @ sq @ ''re ELO AI - Elite Real Estate Intelligence. Brief, data-driven, actionable!'']"

section \<open>Synthesis and delivery\<close>

definition or_undefined :: "jsval \<Rightarrow> jsval option" where
  "or_undefined v = (if truthy v then Some v else None)"

text \<open>
  The body of the stream's \<open>start\<close>: each chunk with a text is forwarded at once and
  appended to the full response; a chunk whose \<open>text()\<close> throws is skipped. After the
  last chunk the full response is written to the cache and the channel closed; if the iteration throws
  instead, the error text is sent and the channel closed.
\<close>

fun forward_chunks :: "string option list \<Rightarrow> string \<Rightarrow> string \<times> event list" where
  "forward_chunks [] fullResponse = (fullResponse, [])"
| "forward_chunks (None # cs) fullResponse = forward_chunks cs fullResponse"
| "forward_chunks (Some chunkText # cs) fullResponse =
     (if chunkText \<noteq> [] then
        (case forward_chunks cs (fullResponse @ chunkText) of
           (full, evs) \<Rightarrow> (full, Enqueue chunkText # evs))
      else forward_chunks cs fullResponse)"

definition stream_start ::
  "string \<Rightarrow> string \<Rightarrow> jsval \<Rightarrow> jsval list \<Rightarrow> content_stream \<Rightarrow> event list" where
  "stream_start uid message sqlQuery queryResults stream =
     (case stream of
        (chunks, failure) \<Rightarrow>
          (case forward_chunks chunks [] of
             (fullResponse, evs) \<Rightarrow>
               (case failure of
                  None \<Rightarrow>
                    evs @ [CacheSet uid message fullResponse (or_undefined sqlQuery) (length queryResults),
                           Close]
                | Some msg \<Rightarrow>
                    evs @ [Enqueue (js_join nl
       ['''',
        '''',
        ''Error: '' @ msg]),
                           Close])))"

definition data_info_of :: "jsval \<Rightarrow> jsval list \<Rightarrow> data_info" where
  "data_info_of sqlQuery queryResults =
     \<lparr>info_sqlQuery = (if truthy sqlQuery then sqlQuery else JStr ''No SQL generated''),
      info_resultCount = length queryResults,
      hasData = (queryResults \<noteq> []),
      sampleData = (if queryResults \<noteq> [] then Some (take 3 queryResults) else None)\<rparr>"

text \<open>The non-streaming answer, also the fallback when the stream cannot be opened.\<close>

definition buffered_reply ::
  "world \<Rightarrow> string \<Rightarrow> string \<Rightarrow> string \<Rightarrow> string \<Rightarrow> jsval \<Rightarrow> jsval list
     \<Rightarrow> (thrown + string) \<times> event list" where
  "buffered_reply w uid model message prompt sqlQuery queryResults =
     (case answer_model w model prompt of
        Inr text \<Rightarrow>
          (Inr text,
           [Generate Synthesis model prompt,
            CacheSet uid message text (or_undefined sqlQuery) (length queryResults)])
      | Inl errorMsg \<Rightarrow>
          (if model_not_found errorMsg then
             (case try_alt_models (answer_alt_model w) Synthesis prompt
                     (\<lambda>text. [CacheSet uid message text (or_undefined sqlQuery) (length queryResults)])
                     altModels of
                (None, evs) \<Rightarrow>
                  (Inl (Error (''All Gemini models failed for analysis. Please check your API key and available models. Original error: '' @ errorMsg)), Generate Synthesis model prompt # evs)
              | (Some text, evs) \<Rightarrow>
                  (if text = [] then
                     (Inl (Error (''All Gemini models failed for analysis. Please check your API key and available models. Original error: '' @ errorMsg)), Generate Synthesis model prompt # evs)
                   else (Inr text, Generate Synthesis model prompt # evs)))
           else (Inl (Error (''Failed to generate analysis: '' @ errorMsg)), [Generate Synthesis model prompt])))"

definition buffered_response ::
  "world \<Rightarrow> string \<Rightarrow> string \<Rightarrow> string \<Rightarrow> string \<Rightarrow> jsval \<Rightarrow> jsval list
     \<Rightarrow> (thrown + response) \<times> event list" where
  "buffered_response w uid model message prompt sqlQuery queryResults =
     (case buffered_reply w uid model message prompt sqlQuery queryResults of
        (Inl e, evs) \<Rightarrow> (Inl e, evs)
      | (Inr text, evs) \<Rightarrow>
          (Inr (Json 200 (ReplyBody \<lparr>reply = text, cached = False, debug = None,
                                      dataInfo = Some (data_info_of sqlQuery queryResults)\<rparr>)),
           evs))"

definition synthesize ::
  "world \<Rightarrow> string \<Rightarrow> string \<Rightarrow> string \<Rightarrow> bool \<Rightarrow> string \<Rightarrow> jsval \<Rightarrow> jsval list
     \<Rightarrow> (thrown + response) \<times> event list" where
  "synthesize w uid model message useStreaming prompt sqlQuery queryResults =
     (if useStreaming then
        (case answer_stream w model prompt of
           Inr stream \<Rightarrow>
             (Inr TextStream,
              GenerateStream model prompt # stream_start uid message sqlQuery queryResults stream)
         | Inl err \<Rightarrow>
             (case buffered_response w uid model message prompt sqlQuery queryResults of
                (r, evs) \<Rightarrow> (r, GenerateStream model prompt # evs)))
      else buffered_response w uid model message prompt sqlQuery queryResults)"

section \<open>The request handler\<close>

text \<open>From the model listing to the response: everything after the cache check.\<close>

definition generate_answer ::
  "world \<Rightarrow> string \<Rightarrow> string \<Rightarrow> bool \<Rightarrow> jsval \<Rightarrow> jsval \<Rightarrow> (thrown + response) \<times> event list" where
  "generate_answer w uid message useStreaming pageContext pageData =
     (case primary_query w uid (modelName w) message of
        (sqlQuery, queryResults, evs1) \<Rightarrow>
          (case (if truthy pageContext then auto_query w uid (modelName w) pageContext
                 else (JStr [], [], [])) of
             (autoQuerySQL, autoQueryResults, evs2) \<Rightarrow>
               (case page_context_info w pageContext pageData autoQueryResults of
                  Inl e \<Rightarrow> (Inl e, ListModels # evs1 @ evs2)
                | Inr pageContextInfo \<Rightarrow>
                    (case synthesize w uid (modelName w) message useStreaming
                            (analysisPrompt w message pageContextInfo
                               (dataSummary w sqlQuery autoQuerySQL queryResults autoQueryResults))
                            sqlQuery queryResults of
                       (r, evs3) \<Rightarrow> (r, ListModels # evs1 @ evs2 @ evs3)))))"

text \<open>The outermost \<open>catch\<close>.\<close>

definition error_response :: "world \<Rightarrow> thrown \<Rightarrow> response" where
  "error_response w e =
     (let errorMessage = (case e of Error m \<Rightarrow> m | TypeError \<Rightarrow> type_error_message w) in
      Json 500 (ErrorBody (if errorMessage \<noteq> [] then errorMessage else ''Internal server error'')))"

definition cached_response :: "world \<Rightarrow> cache_entry \<Rightarrow> response" where
  "cached_response w entry =
     Json 200 (ReplyBody
       \<lparr>reply = entry_response entry, cached = True,
        debug = (if NODE_ENV w = Some ''development'' then
                   Some \<lparr>debug_sqlQuery =
                           (case entry_sqlQuery entry of
                              Some q \<Rightarrow> if truthy q then q else JStr ''No SQL generated''
                            | None \<Rightarrow> JStr ''No SQL generated''),
                         debug_resultCount = entry_resultCount entry\<rparr>
                 else None),
        dataInfo = None\<rparr>)"

definition answer_message ::
  "world \<Rightarrow> string \<Rightarrow> string \<Rightarrow> bool \<Rightarrow> jsval \<Rightarrow> jsval \<Rightarrow> response \<times> event list" where
  "answer_message w uid message useStreaming pageContext pageData =
     (if useStreaming then
        (case generate_answer w uid message useStreaming pageContext pageData of
           (Inl e, evs) \<Rightarrow> (error_response w e, evs)
         | (Inr r, evs) \<Rightarrow> (r, evs))
      else
        (case getCachedResponse w uid message of
           Some entry \<Rightarrow> (cached_response w entry, [CacheGet uid message])
         | None \<Rightarrow>
             (case generate_answer w uid message useStreaming pageContext pageData of
                (Inl e, evs) \<Rightarrow> (error_response w e, CacheGet uid message # evs)
              | (Inr r, evs) \<Rightarrow> (r, CacheGet uid message # evs))))"

definition or_null :: "jsval option \<Rightarrow> jsval" where
  "or_null v = (case v of Some x \<Rightarrow> x | None \<Rightarrow> JNull)"

definition use_streaming :: "jsval \<Rightarrow> bool" where
  "use_streaming body = (case js_prop body ''stream'' of None \<Rightarrow> True | Some v \<Rightarrow> truthy v)"

definition POST :: "world \<Rightarrow> response \<times> event list" where
  "POST w =
     (case currentUser w of
        Inl m \<Rightarrow> (error_response w (Error m), [])
      | Inr None \<Rightarrow> (Json 401 (ErrorBody ''Unauthorized''), [])
      | Inr (Some uid) \<Rightarrow>
          (if \<not> env_set (GEMINI_API_KEY w) then
             (Json 500 (ErrorBody ''Gemini API key not configured. Please set GEMINI_API_KEY in your Vercel environment variables.''), [])
           else
             (case request_json w of
                Inl m \<Rightarrow> (error_response w (Error m), [])
              | Inr JNull \<Rightarrow> (error_response w TypeError, [])
              | Inr body \<Rightarrow>
                  (case js_prop body ''message'' of
                     Some (JStr message) \<Rightarrow>
                       (if message = [] then (Json 400 (ErrorBody ''Message is required''), [])
                        else answer_message w uid message (use_streaming body)
                               (or_null (js_prop body ''pageContext''))
                               (or_null (js_prop body ''pageData'')))
                   | _ \<Rightarrow> (Json 400 (ErrorBody ''Message is required''), [])))))"

text \<open>
  The events a run of the handler can contain. A statement reaches the executor on the
  auxiliary path only if it is non-empty and passes the mutation guard, and the cache is
  only read by a request that does not stream.
\<close>

definition handler_event :: "event \<Rightarrow> bool" where
  "handler_event e =
     (case e of
        RunQuery Auxiliary q \<Rightarrow> q \<noteq> [] \<and> mutation_free q
      | CacheGet uid msg \<Rightarrow> False
      | _ \<Rightarrow> True)"

section \<open>Vocabulary of the results\<close>

definition status :: "response \<Rightarrow> nat" where
  "status r = (case r of Json code b \<Rightarrow> code | TextStream \<Rightarrow> 200)"

text \<open>
  A request that passes the three checks of the handler (identity, API key, message) and
  is not answered from the cache: the one that reaches generation.
\<close>

definition accepted :: "world \<Rightarrow> string \<Rightarrow> jsval \<Rightarrow> string \<Rightarrow> bool" where
  "accepted w uid body message =
     (currentUser w = Inr (Some uid) \<and> env_set (GEMINI_API_KEY w) \<and> request_json w = Inr body \<and>
      body \<noteq> JNull \<and> js_prop body ''message'' = Some (JStr message) \<and> message \<noteq> [] \<and>
      (use_streaming body \<or> getCachedResponse w uid message = None))"

text \<open>A page context as the interface declares it: a string, or none (absent, or falsy).\<close>

definition text_or_absent :: "jsval \<Rightarrow> bool" where
  "text_or_absent v = (case v of JStr p \<Rightarrow> True | _ \<Rightarrow> \<not> truthy v)"

text \<open>
  The same world with an executor that cannot fail: where the executor of \<open>w\<close> throws
  (no connection string, or the database rejects the statement), this one returns no rows.
\<close>

definition executor_failures_as_empty :: "world \<Rightarrow> world" where
  "executor_failures_as_empty w =
     w\<lparr>DATABASE_URL := Some ''postgresql://db'',
       pool_query := (\<lambda>dbUrl sql. case runSupabaseQuery w sql of Inl err \<Rightarrow> Inr [] | Inr rows \<Rightarrow> Inr rows)\<rparr>"

text \<open>
  The prompts sent for synthesis in a run, in order: those of the streaming call and of
  the buffered calls, on the selected model or on an alternative.
\<close>

fun synthesis_prompts :: "event list \<Rightarrow> string list" where
  "synthesis_prompts [] = []"
| "synthesis_prompts (Generate Synthesis m p # evs) = p # synthesis_prompts evs"
| "synthesis_prompts (GenerateStream m p # evs) = p # synthesis_prompts evs"
| "synthesis_prompts (e # evs) = synthesis_prompts evs"


text \<open>
  The fragments of a stream that reach the client: the chunks whose \<open>text()\<close> returns,
  and returns a text that is not empty.
\<close>

definition forwarded :: "string option list \<Rightarrow> string list" where
  "forwarded chunks = filter (\<lambda>t. t \<noteq> []) (List.map_filter (\<lambda>c. c) chunks)"




section \<open>Concrete requests\<close>

text \<open>
  One authenticated, fully configured request whose models answer with bare SQL text (so
  that \<open>JSON.parse\<close> throws on everything it is given), and the variations of it that
  the results below are run on.
\<close>

definition question :: jsval where
  "question =
     JObj [(''message'', JStr ''How many properties do I have?''), (''stream'', JBool False)]"

definition page_question :: jsval where
  "page_question =
     JObj [(''message'', JStr ''How many properties do I have?''), (''stream'', JBool False),
           (''pageContext'', JStr ''properties'')]"

definition streamed_question :: jsval where
  "streamed_question = JObj [(''message'', JStr ''How many properties do I have?'')]"

definition coach_world :: world where
  "coach_world =
     \<lparr>currentUser = Inr (Some ''user_1''),
      GEMINI_API_KEY = Some ''key'',
      DATABASE_URL = Some ''postgresql://db'',
      SUPABASE_DB_URL = None,
      NODE_ENV = Some ''production'',
      request_json = Inr question,
      getCachedResponse = (\<lambda>uid message. None),
      list_models = FetchFailed,
      getDatabaseSchema = ''properties(id, user_id, address)'',
      AI_COACH_SYSTEM_PROMPT = ''You are ELO AI.'',
      JSON_parse = (\<lambda>text. None),
      JSON_stringify = (\<lambda>v. ''[...]''),
      String_of = (\<lambda>v. ''[object Object]''),
      type_error_message = ''pageContext.toLowerCase is not a function'',
      sql_model = (\<lambda>model prompt. Inr ''SELECT user_id, address FROM properties''),
      sql_alt_model = (\<lambda>model prompt. Inl ''404 model not found''),
      auto_model = (\<lambda>model prompt. Inr ''SELECT * FROM properties''),
      answer_stream = (\<lambda>model prompt. Inr ([Some ''You have '', Some ''3 properties.''], None)),
      answer_model = (\<lambda>model prompt. Inr ''You have 3 properties.''),
      answer_alt_model = (\<lambda>model prompt. Inl ''404 model not found''),
      pool_query = (\<lambda>dbUrl sql. Inr [JObj [(''address'', JStr ''1 Main St'')]])\<rparr>"

definition page_world :: world where
  "page_world = coach_world\<lparr>request_json := Inr page_question\<rparr>"

definition mutating_world :: world where
  "mutating_world = page_world\<lparr>auto_model := (\<lambda>model prompt. Inr ''DELETE FROM properties'')\<rparr>"

definition exhausted_sql_world :: world where
  "exhausted_sql_world = coach_world\<lparr>sql_model := (\<lambda>model prompt. Inl ''404 model not found'')\<rparr>"


definition streamed_world :: world where
  "streamed_world = coach_world\<lparr>request_json := Inr streamed_question\<rparr>"

definition stored_entry :: cache_entry where
  "stored_entry =
     \<lparr>entry_response = ''You have 3 properties.'', entry_sqlQuery = None, entry_resultCount = 1\<rparr>"

definition cached_world :: world where
  "cached_world = coach_world\<lparr>getCachedResponse := (\<lambda>uid message. Some stored_entry)\<rparr>"


definition failing_db_world :: world where
  "failing_db_world = page_world\<lparr>pool_query := (\<lambda>dbUrl sql. Inl ''connection refused'')\<rparr>"

definition broken_stream_world :: world where
  "broken_stream_world =
     streamed_world\<lparr>answer_stream := (\<lambda>model prompt. Inr ([Some ''You have ''], Some ''socket hang up''))\<rparr>"

definition unopened_stream_world :: world where
  "unopened_stream_world = streamed_world\<lparr>answer_stream := (\<lambda>model prompt. Inl ''503 unavailable'')\<rparr>"

definition no_message_world :: world where
  "no_message_world = coach_world\<lparr>request_json := Inr (JObj [(''stream'', JBool False)])\<rparr>"

definition no_database_world :: world where
  "no_database_world = page_world\<lparr>DATABASE_URL := None\<rparr>"







definition null_body_world :: world where
  "null_body_world =
     coach_world\<lparr>request_json := Inr JNull,
       type_error_message :=
         ''Cannot destructure property '' @ sq @ ''message'' @ sq @ '' of '' @ sq @ ''body'' @ sq @
         '' as it is null.''\<rparr>"

definition unreadable_body_world :: world where
  "unreadable_body_world =
     coach_world\<lparr>request_json := Inl ''Unexpected end of JSON input''\<rparr>"

section \<open>What each stage asks of its collaborators\<close>

lemma try_alt_models_events:
  "try_alt_models g st p after ms = (r, evs) \<Longrightarrow> e \<in> set evs \<Longrightarrow>
     (\<exists>m. e = Generate st m p) \<or> (\<exists>t. e \<in> set (after t))"
  by (induction ms arbitrary: r evs) (auto split: sum.splits prod.splits)

lemma generate_sql_events:
  "generate_sql w m p = (r, evs) \<Longrightarrow> e \<in> set evs \<Longrightarrow> \<exists>m'. e = Generate SqlGeneration m' p"
  by (auto simp: generate_sql_def split: sum.splits prod.splits option.splits if_splits
       dest: try_alt_models_events)

lemma primary_query_events:
  "primary_query w uid m msg = (q, rows, evs) \<Longrightarrow> e \<in> set evs \<Longrightarrow>
     (\<exists>m'. e = Generate SqlGeneration m' (sqlGenerationPrompt w uid msg)) \<or>
     (\<exists>s. e = RunQuery Primary s)"
  by (auto simp: primary_query_def split: sum.splits prod.splits jsval.splits
       dest: generate_sql_events)

lemma auto_query_events:
  "auto_query w uid m pc = (q, rows, evs) \<Longrightarrow> e \<in> set evs \<Longrightarrow>
     e = Generate ContextQuery m (autoQueryPrompt w uid pc) \<or>
     (\<exists>s. e = RunQuery Auxiliary s \<and> s \<noteq> [] \<and> mutation_free s)"
  by (auto simp: auto_query_def split: sum.splits jsval.splits if_splits)

lemma forward_chunks_events:
  "forward_chunks cs full = (full', evs) \<Longrightarrow> e \<in> set evs \<Longrightarrow> \<exists>t. e = Enqueue t"
  by (induction cs full arbitrary: full' evs rule: forward_chunks.induct)
     (auto split: prod.splits if_splits)

lemma stream_start_events:
  "e \<in> set (stream_start uid msg q rows st) \<Longrightarrow>
     (\<exists>t. e = Enqueue t) \<or> e = Close \<or>
     (\<exists>t. e = CacheSet uid msg t (or_undefined q) (length rows))"
proof -
  assume e: "e \<in> set (stream_start uid msg q rows st)"
  obtain chunks failure where st: "st = (chunks, failure)" by (cases st)
  obtain full evs where fc: "forward_chunks chunks [] = (full, evs)"
    by (cases "forward_chunks chunks []")
  from e st fc have "e \<in> set evs \<or> e = Close \<or>
      (\<exists>t. e = CacheSet uid msg t (or_undefined q) (length rows)) \<or> (\<exists>t. e = Enqueue t)"
    by (auto simp: stream_start_def split: option.splits)
  with fc show ?thesis by (auto dest: forward_chunks_events)
qed

lemma buffered_reply_events:
  "buffered_reply w uid m msg p q rows = (r, evs) \<Longrightarrow> e \<in> set evs \<Longrightarrow>
     (\<exists>m'. e = Generate Synthesis m' p) \<or>
     (\<exists>t. e = CacheSet uid msg t (or_undefined q) (length rows))"
  by (auto simp: buffered_reply_def split: sum.splits prod.splits option.splits if_splits
       dest: try_alt_models_events)

lemma buffered_response_events:
  "buffered_response w uid m msg p q rows = (r, evs) \<Longrightarrow> e \<in> set evs \<Longrightarrow>
     (\<exists>m'. e = Generate Synthesis m' p) \<or>
     (\<exists>t. e = CacheSet uid msg t (or_undefined q) (length rows))"
  by (auto simp: buffered_response_def split: sum.splits prod.splits dest: buffered_reply_events)

lemma synthesize_events:
  "synthesize w uid m msg s p q rows = (r, evs) \<Longrightarrow> e \<in> set evs \<Longrightarrow>
     (\<exists>m'. e = Generate Synthesis m' p) \<or> e = GenerateStream m p \<or>
     (\<exists>t. e = Enqueue t) \<or> e = Close \<or>
     (\<exists>t. e = CacheSet uid msg t (or_undefined q) (length rows))"
  by (auto simp: synthesize_def split: sum.splits prod.splits if_splits
       dest: buffered_response_events dest!: stream_start_events)

lemma generate_answer_events:
  assumes "generate_answer w uid msg s pc pd = (r, evs)" and "e \<in> set evs"
  shows "handler_event e"
proof -
  obtain q rows evs1 where p: "primary_query w uid (modelName w) msg = (q, rows, evs1)"
    by (cases "primary_query w uid (modelName w) msg")
  obtain aq arows evs2 where
    a: "(if truthy pc then auto_query w uid (modelName w) pc else (JStr [], [], [])) = (aq, arows, evs2)"
    by (cases "if truthy pc then auto_query w uid (modelName w) pc else (JStr [], [], [])")
  have e1: "handler_event x" if "x \<in> set evs1" for x
    using primary_query_events [OF p that] by (auto simp: handler_event_def)
  have e2: "handler_event x" if "x \<in> set evs2" for x
  proof (cases "truthy pc")
    case True
    with a have "auto_query w uid (modelName w) pc = (aq, arows, evs2)" by simp
    from auto_query_events [OF this that] show ?thesis by (auto simp: handler_event_def)
  next
    case False
    with a that show ?thesis by simp
  qed
  show ?thesis
  proof (cases "page_context_info w pc pd arows")
    case (Inl err)
    with assms p a have "e = ListModels \<or> e \<in> set evs1 \<or> e \<in> set evs2"
      by (auto simp: generate_answer_def)
    with e1 e2 show ?thesis by (auto simp: handler_event_def)
  next
    case (Inr info)
    obtain r3 evs3 where
      s: "synthesize w uid (modelName w) msg s
            (analysisPrompt w msg info (dataSummary w q aq rows arows)) q rows = (r3, evs3)"
      by (cases "synthesize w uid (modelName w) msg s
            (analysisPrompt w msg info (dataSummary w q aq rows arows)) q rows")
    have e3: "handler_event x" if "x \<in> set evs3" for x
      using synthesize_events [OF s that] by (auto simp: handler_event_def)
    from assms p a Inr s have "e = ListModels \<or> e \<in> set evs1 \<or> e \<in> set evs2 \<or> e \<in> set evs3"
      by (auto simp: generate_answer_def)
    with e1 e2 e3 show ?thesis by (auto simp: handler_event_def)
  qed
qed

lemma answer_message_events:
  assumes "e \<in> set (snd (answer_message w uid msg s pc pd))"
  shows "handler_event e \<or> (\<not> s \<and> e = CacheGet uid msg)"
proof -
  obtain r evs where g: "generate_answer w uid msg s pc pd = (r, evs)"
    by (cases "generate_answer w uid msg s pc pd")
  from assms g have "e \<in> set evs \<or> (\<not> s \<and> e = CacheGet uid msg)"
    by (auto simp: answer_message_def split: if_splits option.splits sum.splits)
  with generate_answer_events [OF g] show ?thesis by blast
qed

lemma POST_events:
  assumes "e \<in> set (snd (POST w))"
  shows "handler_event e \<or>
         (\<exists>uid body msg. request_json w = Inr body \<and> \<not> use_streaming body \<and> e = CacheGet uid msg)"
  using assms
  by (auto simp: POST_def split: sum.splits option.splits if_splits jsval.splits
       dest!: answer_message_events)

text \<open>The shape of a run that reaches generation.\<close>

lemma POST_accepted:
  assumes "accepted w uid body message"
  shows "POST w =
     (case generate_answer w uid message (use_streaming body)
             (or_null (js_prop body ''pageContext'')) (or_null (js_prop body ''pageData'')) of
        (r, evs) \<Rightarrow>
          ((case r of Inl e \<Rightarrow> error_response w e | Inr resp \<Rightarrow> resp),
           (if use_streaming body then [] else [CacheGet uid message]) @ evs))"
  using assms
  by (cases body)
     (auto simp: accepted_def POST_def answer_message_def split: prod.splits sum.splits)

lemma generate_answer_cases:
  assumes "generate_answer w uid msg s pc pd = (r, evs)"
  obtains q rows evs1 aq arows evs2 err where
      "primary_query w uid (modelName w) msg = (q, rows, evs1)"
      "(if truthy pc then auto_query w uid (modelName w) pc else (JStr [], [], [])) = (aq, arows, evs2)"
      "page_context_info w pc pd arows = Inl err" "r = Inl err" "evs = ListModels # evs1 @ evs2"
  | q rows evs1 aq arows evs2 info evs3 where
      "primary_query w uid (modelName w) msg = (q, rows, evs1)"
      "(if truthy pc then auto_query w uid (modelName w) pc else (JStr [], [], [])) = (aq, arows, evs2)"
      "page_context_info w pc pd arows = Inr info"
      "synthesize w uid (modelName w) msg s
         (analysisPrompt w msg info (dataSummary w q aq rows arows)) q rows = (r, evs3)"
      "evs = ListModels # evs1 @ evs2 @ evs3"
proof -
  obtain q rows evs1 where p: "primary_query w uid (modelName w) msg = (q, rows, evs1)"
    by (cases "primary_query w uid (modelName w) msg")
  obtain aq arows evs2 where
    a: "(if truthy pc then auto_query w uid (modelName w) pc else (JStr [], [], [])) = (aq, arows, evs2)"
    by (cases "if truthy pc then auto_query w uid (modelName w) pc else (JStr [], [], [])")
  show thesis
  proof (cases "page_context_info w pc pd arows")
    case (Inl err)
    with assms p a have "r = Inl err" "evs = ListModels # evs1 @ evs2"
      by (auto simp: generate_answer_def)
    with p a Inl that(1) show ?thesis by blast
  next
    case (Inr info)
    obtain r3 evs3 where
      s: "synthesize w uid (modelName w) msg s
            (analysisPrompt w msg info (dataSummary w q aq rows arows)) q rows = (r3, evs3)"
      by (cases "synthesize w uid (modelName w) msg s
            (analysisPrompt w msg info (dataSummary w q aq rows arows)) q rows")
    with assms p a Inr have "r = r3" "evs = ListModels # evs1 @ evs2 @ evs3"
      by (auto simp: generate_answer_def)
    with p a Inr s that(2) show ?thesis by blast
  qed
qed

lemma page_context_info_text:
  "text_or_absent pc \<Longrightarrow> \<exists>info. page_context_info w pc pd arows = Inr info"
  by (cases pc) (auto simp: text_or_absent_def page_context_info_def)

lemma synthesize_reached:
  "synthesize w uid m msg s p q rows = (r, evs) \<Longrightarrow>
     (if s then GenerateStream m p else Generate Synthesis m p) \<in> set evs"
  by (auto simp: synthesize_def buffered_response_def buffered_reply_def
      split: sum.splits prod.splits if_splits option.splits)

text \<open>An executor failure is indistinguishable from an empty result set.\<close>

lemma runSupabaseQuery_absorbed:
  "runSupabaseQuery (executor_failures_as_empty w) sql =
     (case runSupabaseQuery w sql of Inl err \<Rightarrow> Inr [] | Inr rows \<Rightarrow> Inr rows)"
  by (simp add: executor_failures_as_empty_def runSupabaseQuery_def [of "w\<lparr>DATABASE_URL := x, pool_query := y\<rparr>" for x y]
      env_or_def split: sum.splits)

lemma absorbed_fields:
  "currentUser (executor_failures_as_empty w) = currentUser w"
  "GEMINI_API_KEY (executor_failures_as_empty w) = GEMINI_API_KEY w"
  "NODE_ENV (executor_failures_as_empty w) = NODE_ENV w"
  "request_json (executor_failures_as_empty w) = request_json w"
  "getCachedResponse (executor_failures_as_empty w) = getCachedResponse w"
  "list_models (executor_failures_as_empty w) = list_models w"
  "getDatabaseSchema (executor_failures_as_empty w) = getDatabaseSchema w"
  "AI_COACH_SYSTEM_PROMPT (executor_failures_as_empty w) = AI_COACH_SYSTEM_PROMPT w"
  "JSON_parse (executor_failures_as_empty w) = JSON_parse w"
  "JSON_stringify (executor_failures_as_empty w) = JSON_stringify w"
  "String_of (executor_failures_as_empty w) = String_of w"
  "type_error_message (executor_failures_as_empty w) = type_error_message w"
  "sql_model (executor_failures_as_empty w) = sql_model w"
  "sql_alt_model (executor_failures_as_empty w) = sql_alt_model w"
  "auto_model (executor_failures_as_empty w) = auto_model w"
  "answer_stream (executor_failures_as_empty w) = answer_stream w"
  "answer_model (executor_failures_as_empty w) = answer_model w"
  "answer_alt_model (executor_failures_as_empty w) = answer_alt_model w"
  by (simp_all add: executor_failures_as_empty_def)

lemma absorbed_generation:
  "modelName (executor_failures_as_empty w) = modelName w"
  "generate_sql (executor_failures_as_empty w) = generate_sql w"
  "sqlGenerationPrompt (executor_failures_as_empty w) = sqlGenerationPrompt w"
  "js_text (executor_failures_as_empty w) = js_text w"
  "parsed_sql (executor_failures_as_empty w) = parsed_sql w"
  unfolding modelName_def availableModel_def generate_sql_def sqlGenerationPrompt_def
    js_text_def parsed_sql_def absorbed_fields
  by (rule refl)+

lemma absorbed_extraction:
  "extract_sql (executor_failures_as_empty w) = extract_sql w"
  "autoQueryPrompt (executor_failures_as_empty w) = autoQueryPrompt w"
  "extract_auto_sql (executor_failures_as_empty w) = extract_auto_sql w"
  unfolding extract_sql_def autoQueryPrompt_def extract_auto_sql_def absorbed_fields
    absorbed_generation
  by (rule refl)+

lemma absorbed_synthesis:
  "page_context_info (executor_failures_as_empty w) = page_context_info w"
  "analysisPrompt (executor_failures_as_empty w) = analysisPrompt w"
  "dataSummary (executor_failures_as_empty w) = dataSummary w"
  "synthesize (executor_failures_as_empty w) = synthesize w"
  "error_response (executor_failures_as_empty w) = error_response w"
  "cached_response (executor_failures_as_empty w) = cached_response w"
  unfolding page_context_info_def analysisPrompt_def dataSummary_def data_found_def
    allSQLQueries_def synthesize_def buffered_response_def buffered_reply_def error_response_def
    cached_response_def absorbed_fields absorbed_generation
  by (rule refl)+

lemma primary_query_absorbed:
  "primary_query (executor_failures_as_empty w) = primary_query w"
  unfolding primary_query_def absorbed_generation absorbed_extraction runSupabaseQuery_absorbed
  by (auto simp: fun_eq_iff split: prod.splits sum.splits jsval.splits)

lemma auto_query_absorbed:
  "auto_query (executor_failures_as_empty w) = auto_query w"
  unfolding auto_query_def absorbed_fields absorbed_extraction runSupabaseQuery_absorbed
  by (auto simp: fun_eq_iff split: prod.splits sum.splits jsval.splits)

lemma POST_absorbed: "POST (executor_failures_as_empty w) = POST w"
  unfolding POST_def answer_message_def generate_answer_def absorbed_fields absorbed_generation
    absorbed_synthesis primary_query_absorbed auto_query_absorbed
  by (rule refl)

lemma try_alt_models_all_fail:
  "\<forall>m \<in> set ms. \<exists>err. g m p = Inl err \<Longrightarrow>
     try_alt_models g st p after ms = (None, map (\<lambda>m. Generate st m p) ms)"
  by (induction ms) auto

lemma generate_sql_exhausted:
  assumes "sql_model w m p = Inl errorMsg" and "model_not_found errorMsg"
    and "\<forall>a \<in> set altModels. \<exists>err. sql_alt_model w a p = Inl err"
  shows "\<exists>msg. generate_sql w m p =
           (Inl (Error msg), Generate SqlGeneration m p # map (\<lambda>a. Generate SqlGeneration a p) altModels)"
  using assms by (simp add: generate_sql_def try_alt_models_all_fail)

lemma primary_query_generation_failed:
  "generate_sql w m (sqlGenerationPrompt w uid msg) = (Inl e, evs) \<Longrightarrow>
     primary_query w uid m msg = (JStr [], [], evs)"
  by (simp add: primary_query_def)

lemma generate_answer_primary_calls:
  assumes "generate_answer w uid msg s pc pd = (r, evs)"
    and "primary_query w uid (modelName w) msg = (q, rows, evs1)"
    and "RunQuery Primary x \<in> set evs"
  shows "RunQuery Primary x \<in> set evs1"
  using assms(1)
proof (cases rule: generate_answer_cases)
  case (1 q' rows' evs1' aq arows evs2 err)
  have "RunQuery Primary x \<notin> set evs2"
    using 1(2) by (auto split: if_splits dest: auto_query_events)
  with 1 assms show ?thesis by auto
next
  case (2 q' rows' evs1' aq arows evs2 info evs3)
  have "RunQuery Primary x \<notin> set evs2"
    using 2(2) by (auto split: if_splits dest: auto_query_events)
  moreover have "RunQuery Primary x \<notin> set evs3"
    using 2(4) by (auto dest: synthesize_events)
  ultimately show ?thesis using 2 assms by auto
qed

lemma generate_answer_reaches_synthesis:
  assumes "generate_answer w uid msg s pc pd = (r, evs)" and "text_or_absent pc"
  shows "\<exists>p. (if s then GenerateStream (modelName w) p else Generate Synthesis (modelName w) p) \<in> set evs"
  using assms(1)
proof (cases rule: generate_answer_cases)
  case (1 q rows evs1 aq arows evs2 err)
  with page_context_info_text [OF assms(2), of w pd arows] show ?thesis by simp
next
  case (2 q rows evs1 aq arows evs2 info evs3)
  from synthesize_reached [OF 2(4)] 2(5) show ?thesis by (auto split: if_splits)
qed

lemma count_list_absent: "x \<notin> set xs \<Longrightarrow> count_list xs x = 0"
  by (simp add: count_list_0_iff)

lemma stream_start_shape:
  "stream_start uid msg q rows (chunks, failure) =
     snd (forward_chunks chunks []) @
     [case failure of
        None \<Rightarrow> CacheSet uid msg (fst (forward_chunks chunks [])) (or_undefined q) (length rows)
      | Some err \<Rightarrow> Enqueue (nl @ nl @ ''Error: '' @ err),
      Close]"
  by (simp add: stream_start_def split: prod.splits option.splits)

lemma stream_start_closes_once:
  "count_list (stream_start uid msg q rows st) Close = 1 \<and>
   last (stream_start uid msg q rows st) = Close"
proof -
  obtain chunks failure where st: "st = (chunks, failure)" by (cases st)
  have "Close \<notin> set (snd (forward_chunks chunks []))"
    by (cases "forward_chunks chunks []") (auto dest: forward_chunks_events)
  then have "count_list (snd (forward_chunks chunks [])) Close = 0"
    by (rule count_list_absent)
  then show ?thesis
    unfolding st stream_start_shape by (simp split: option.splits)
qed

lemma buffered_response_no_stream:
  assumes "buffered_response w uid m msg p q rows = (r, evs)"
  shows "r \<noteq> Inr TextStream \<and> count_list evs Close = 0"
proof -
  have "Close \<notin> set evs" using buffered_response_events [OF assms] by auto
  moreover from assms have "r \<noteq> Inr TextStream"
    by (auto simp: buffered_response_def split: prod.splits sum.splits)
  ultimately show ?thesis by (simp add: count_list_absent)
qed

lemma synthesize_closes:
  assumes "synthesize w uid m msg s p q rows = (r, evs)"
  shows "count_list evs Close = (if r = Inr TextStream then 1 else 0)"
proof (cases "s \<and> (\<exists>st. answer_stream w m p = Inr st)")
  case True
  then obtain st where "answer_stream w m p = Inr st" and s by blast
  with assms have "r = Inr TextStream" "evs = GenerateStream m p # stream_start uid msg q rows st"
    by (auto simp: synthesize_def)
  with stream_start_closes_once [of uid msg q rows st] show ?thesis by simp
next
  case False
  obtain r' evs' where b: "buffered_response w uid m msg p q rows = (r', evs')"
    by (cases "buffered_response w uid m msg p q rows")
  from False assms b have "r = r'" and "evs = evs' \<or> evs = GenerateStream m p # evs'"
    by (auto simp: synthesize_def split: if_splits sum.splits)
  with buffered_response_no_stream [OF b] show ?thesis by auto
qed

lemma generate_answer_closes:
  assumes "generate_answer w uid msg s pc pd = (r, evs)"
  shows "count_list evs Close = (if r = Inr TextStream then 1 else 0)"
  using assms
proof (cases rule: generate_answer_cases)
  case (1 q rows evs1 aq arows evs2 err)
  have "Close \<notin> set evs1" using 1(1) by (auto dest: primary_query_events)
  moreover have "Close \<notin> set evs2" using 1(2) by (auto split: if_splits dest: auto_query_events)
  ultimately show ?thesis using 1 by (simp add: count_list_absent)
next
  case (2 q rows evs1 aq arows evs2 info evs3)
  have "Close \<notin> set evs1" using 2(1) by (auto dest: primary_query_events)
  moreover have "Close \<notin> set evs2" using 2(2) by (auto split: if_splits dest: auto_query_events)
  ultimately show ?thesis using 2 synthesize_closes [OF 2(4)] by (simp add: count_list_absent)
qed

lemma error_response_status:
  "\<exists>msg. error_response w e = Json 500 (ErrorBody msg)"
  by (simp add: error_response_def Let_def)

lemma error_response_no_stream: "error_response w e \<noteq> TextStream"
  using error_response_status [of w e] by auto

lemma answer_message_closes:
  "count_list (snd (answer_message w uid msg s pc pd)) Close =
     (if fst (answer_message w uid msg s pc pd) = TextStream then 1 else 0)"
proof -
  obtain r evs where g: "generate_answer w uid msg s pc pd = (r, evs)"
    by (cases "generate_answer w uid msg s pc pd")
  from generate_answer_closes [OF g] g show ?thesis
    by (auto simp: answer_message_def error_response_no_stream cached_response_def
        split: sum.splits option.splits)
qed

lemma POST_closes:
  "count_list (snd (POST w)) Close = (if fst (POST w) = TextStream then 1 else 0)"
  by (simp add: POST_def error_response_no_stream answer_message_closes
      split: sum.splits option.splits jsval.splits)

text \<open>When the synthesis model answers, and when the executor is unavailable.\<close>

lemma buffered_response_answered:
  assumes "answer_model w m p = Inr t"
  shows "buffered_response w uid m msg p q rows =
     (Inr (Json 200 (ReplyBody \<lparr>reply = t, cached = False, debug = None,
                                 dataInfo = Some (data_info_of q rows)\<rparr>)),
      [Generate Synthesis m p, CacheSet uid msg t (or_undefined q) (length rows)])"
  using assms by (simp add: buffered_response_def buffered_reply_def)

lemma generate_answer_buffered:
  assumes "primary_query w uid (modelName w) msg = (q, rows, evs1)"
    and "text_or_absent pc"
    and "\<forall>p. \<exists>t. answer_model w (modelName w) p = Inr t"
  shows "\<exists>t. fst (generate_answer w uid msg False pc pd) =
     Inr (Json 200 (ReplyBody \<lparr>reply = t, cached = False, debug = None,
                                 dataInfo = Some (data_info_of q rows)\<rparr>))"
proof -
  obtain r evs where g: "generate_answer w uid msg False pc pd = (r, evs)"
    by (cases "generate_answer w uid msg False pc pd")
  from g show ?thesis
  proof (cases rule: generate_answer_cases)
    case (1 q' rows' evs1' aq arows evs2 err)
    with page_context_info_text [OF assms(2), of w pd arows] show ?thesis by simp
  next
    case (2 q' rows' evs1' aq arows evs2 info evs3)
    let ?p = "analysisPrompt w msg info (dataSummary w q' aq rows' arows)"
    from assms(3) obtain t where "answer_model w (modelName w) ?p = Inr t" by blast
    from buffered_response_answered [OF this] 2(4) 2(1) assms(1) g show ?thesis
      by (auto simp: synthesize_def)
  qed
qed

lemma generate_answer_streamed:
  assumes "text_or_absent pc" and "\<forall>p. \<exists>st. answer_stream w (modelName w) p = Inr st"
  shows "fst (generate_answer w uid msg True pc pd) = Inr TextStream"
proof -
  obtain r evs where g: "generate_answer w uid msg True pc pd = (r, evs)"
    by (cases "generate_answer w uid msg True pc pd")
  from g show ?thesis
  proof (cases rule: generate_answer_cases)
    case (1 q rows evs1 aq arows evs2 err)
    with page_context_info_text [OF assms(1), of w pd arows] show ?thesis by simp
  next
    case (2 q rows evs1 aq arows evs2 info evs3)
    let ?p = "analysisPrompt w msg info (dataSummary w q aq rows arows)"
    from assms(2) obtain st where "answer_stream w (modelName w) ?p = Inr st" by blast
    with 2(4) g show ?thesis by (auto simp: synthesize_def)
  qed
qed

lemma runSupabaseQuery_unconfigured:
  assumes "\<not> env_set (DATABASE_URL w)" and "\<not> env_set (SUPABASE_DB_URL w)"
  shows "\<exists>msg. runSupabaseQuery w sql = Inl msg"
  using assms by (auto simp: runSupabaseQuery_def env_or_def env_set_def split: option.splits)

lemma primary_query_no_rows:
  assumes "\<forall>sql. \<exists>msg. runSupabaseQuery w sql = Inl msg"
  shows "fst (snd (primary_query w uid m msg)) = []"
proof -
  obtain r evs where g: "generate_sql w m (sqlGenerationPrompt w uid msg) = (r, evs)"
    by (cases "generate_sql w m (sqlGenerationPrompt w uid msg)")
  show ?thesis
  proof (cases r)
    case (Inl e)
    with g show ?thesis by (simp add: primary_query_def)
  next
    case (Inr sqlResponse)
    show ?thesis
    proof (cases "extract_sql w sqlResponse")
      case (JStr q)
      from assms obtain err where "runSupabaseQuery w (ensure_user_filter uid q) = Inl err" by blast
      with g Inr JStr show ?thesis by (simp add: primary_query_def)
    qed (simp_all add: primary_query_def g Inr)
  qed
qed

lemma auto_query_no_rows:
  assumes "\<forall>sql. \<exists>msg. runSupabaseQuery w sql = Inl msg"
  shows "fst (snd (auto_query w uid m pc)) = []"
proof (cases "auto_model w m (autoQueryPrompt w uid pc)")
  case (Inl err)
  then show ?thesis by (simp add: auto_query_def)
next
  case (Inr answer)
  show ?thesis
  proof (cases "extract_auto_sql w answer")
    case (JStr q)
    from assms obtain err where "runSupabaseQuery w q = Inl err" by blast
    with Inr JStr show ?thesis by (simp add: auto_query_def)
  qed (simp_all add: auto_query_def Inr)
qed

lemma buffered_response_exhausted:
  assumes "answer_model w m p = Inl e"
    and "\<forall>a \<in> set altModels. \<exists>err. answer_alt_model w a p = Inl err"
  shows "\<exists>msg. fst (buffered_response w uid m msg' p q rows) = Inl (Error msg)"
  using assms
  by (simp add: buffered_response_def buffered_reply_def try_alt_models_all_fail)

lemma generate_answer_exhausted:
  assumes "\<forall>p. \<exists>e. answer_stream w (modelName w) p = Inl e"
    and "\<forall>p. \<exists>e. answer_model w (modelName w) p = Inl e"
    and "\<forall>a \<in> set altModels. \<forall>p. \<exists>e. answer_alt_model w a p = Inl e"
  shows "\<exists>e. fst (generate_answer w uid msg s pc pd) = Inl e"
proof -
  obtain r evs where g: "generate_answer w uid msg s pc pd = (r, evs)"
    by (cases "generate_answer w uid msg s pc pd")
  from g show ?thesis
  proof (cases rule: generate_answer_cases)
    case (1 q rows evs1 aq arows evs2 err)
    with g show ?thesis by simp
  next
    case (2 q rows evs1 aq arows evs2 info evs3)
    let ?p = "analysisPrompt w msg info (dataSummary w q aq rows arows)"
    from assms(1) obtain e1 where s: "answer_stream w (modelName w) ?p = Inl e1" by blast
    from assms(2) obtain e2 where m: "answer_model w (modelName w) ?p = Inl e2" by blast
    from assms(3) have a: "\<forall>a \<in> set altModels. \<exists>err. answer_alt_model w a ?p = Inl err" by blast
    from buffered_response_exhausted [OF m a, of uid msg q rows] obtain x where
      "fst (buffered_response w uid (modelName w) msg ?p q rows) = Inl (Error x)" by blast
    with 2(4) s g show ?thesis by (auto simp: synthesize_def split: prod.splits if_splits)
  qed
qed

text \<open>The prompts of a run, the outcome of its synthesis, and the responses with status 500.\<close>

lemma synthesis_prompts_append:
  "synthesis_prompts (xs @ ys) = synthesis_prompts xs @ synthesis_prompts ys"
  by (induction xs rule: synthesis_prompts.induct) simp_all

lemma synthesis_prompts_none:
  "(\<And>e. e \<in> set evs \<Longrightarrow> (\<forall>m p. e \<noteq> Generate Synthesis m p \<and> e \<noteq> GenerateStream m p)) \<Longrightarrow>
     synthesis_prompts evs = []"
  by (induction evs rule: synthesis_prompts.induct) auto

lemma primary_query_prompts:
  "primary_query w uid m msg = (q, rows, evs) \<Longrightarrow> synthesis_prompts evs = []"
  by (rule synthesis_prompts_none) (auto dest: primary_query_events)

lemma auto_stage_prompts:
  "(if truthy pc then auto_query w uid m pc else (JStr [], [], [])) = (aq, arows, evs) \<Longrightarrow>
     synthesis_prompts evs = []"
  by (rule synthesis_prompts_none) (auto split: if_splits dest: auto_query_events)



lemma forward_chunks_forwarded:
  "forward_chunks cs full = (full @ concat (forwarded cs), map Enqueue (forwarded cs))"
  by (induction cs full rule: forward_chunks.induct)
     (auto simp: forwarded_def List.map_filter_simps)

lemma stream_start_forwarded:
  "stream_start uid msg q rows (chunks, failure) =
     map Enqueue (forwarded chunks) @
     [case failure of
        None \<Rightarrow> CacheSet uid msg (concat (forwarded chunks)) (or_undefined q) (length rows)
      | Some err \<Rightarrow> Enqueue (nl @ nl @ ''Error: '' @ err),
      Close]"
  by (simp add: stream_start_def forward_chunks_forwarded split: option.splits)




lemma page_context_info_type_error:
  "\<not> text_or_absent pc \<Longrightarrow> page_context_info w pc pd arows = Inl TypeError"
  by (cases pc) (simp_all add: text_or_absent_def page_context_info_def)

lemma page_context_info_thrown:
  "page_context_info w pc pd arows = Inl e \<Longrightarrow> \<not> text_or_absent pc \<and> e = TypeError"
  using page_context_info_text [of pc w pd arows] page_context_info_type_error [of pc w pd arows]
  by (cases "text_or_absent pc") auto

text \<open>A request that reaches generation: its two queries, then the TypeError or the synthesis.\<close>

lemma accepted_run:
  assumes "accepted w uid body message"
  obtains (type_error) q rows evs1 aq arows evs2 where
      "primary_query w uid (modelName w) message = (q, rows, evs1)"
      "(if truthy (or_null (js_prop body ''pageContext''))
        then auto_query w uid (modelName w) (or_null (js_prop body ''pageContext''))
        else (JStr [], [], [])) = (aq, arows, evs2)"
      "\<not> text_or_absent (or_null (js_prop body ''pageContext''))"
      "POST w = (error_response w TypeError,
                 (if use_streaming body then [] else [CacheGet uid message]) @
                 ListModels # evs1 @ evs2)"
  | (synthesis) q rows evs1 aq arows evs2 info r evs3 where
      "primary_query w uid (modelName w) message = (q, rows, evs1)"
      "(if truthy (or_null (js_prop body ''pageContext''))
        then auto_query w uid (modelName w) (or_null (js_prop body ''pageContext''))
        else (JStr [], [], [])) = (aq, arows, evs2)"
      "text_or_absent (or_null (js_prop body ''pageContext''))"
      "page_context_info w (or_null (js_prop body ''pageContext''))
         (or_null (js_prop body ''pageData'')) arows = Inr info"
      "synthesize w uid (modelName w) message (use_streaming body)
         (analysisPrompt w message info (dataSummary w q aq rows arows)) q rows = (r, evs3)"
      "POST w = ((case r of Inl e \<Rightarrow> error_response w e | Inr resp \<Rightarrow> resp),
                 (if use_streaming body then [] else [CacheGet uid message]) @
                 ListModels # evs1 @ evs2 @ evs3)"
proof -
  let ?pc = "or_null (js_prop body ''pageContext'')" and ?pd = "or_null (js_prop body ''pageData'')"
  obtain r evs where g: "generate_answer w uid message (use_streaming body) ?pc ?pd = (r, evs)"
    by (cases "generate_answer w uid message (use_streaming body) ?pc ?pd")
  have p: "POST w = ((case r of Inl e \<Rightarrow> error_response w e | Inr resp \<Rightarrow> resp),
                 (if use_streaming body then [] else [CacheGet uid message]) @ evs)"
    using POST_accepted [OF assms] g by simp
  from g show thesis
  proof (cases rule: generate_answer_cases)
    case (1 q rows evs1 aq arows evs2 err)
    from page_context_info_thrown [OF 1(3)] have "\<not> text_or_absent ?pc" "err = TypeError"
      by simp_all
    with 1 p type_error show ?thesis by simp
  next
    case (2 q rows evs1 aq arows evs2 info evs3)
    from 2(3) have "text_or_absent ?pc"
      using page_context_info_type_error [of ?pc w ?pd arows] by auto
    with 2 p synthesis show ?thesis by simp
  qed
qed





lemma starts_with_extend: "starts_with s p \<Longrightarrow> starts_with (s @ t) p"
  by (induction s p rule: starts_with.induct) simp_all

lemma str_includes_empty: "str_includes s []"
  by (cases s) simp_all



lemma str_includes_appendR: "str_includes s p \<Longrightarrow> str_includes (s @ t) p"
proof (induction s)
  case Nil
  then show ?case by (simp add: str_includes_empty)
next
  case (Cons c cs)
  then show ?case using starts_with_extend [of "c # cs" p t] by auto
qed










text \<open>The check of line 60, on a body that can be destructured.\<close>

lemma POST_message_required:
  assumes "currentUser w = Inr (Some uid)" and "env_set (GEMINI_API_KEY w)"
    and "request_json w = Inr body" and "body \<noteq> JNull"
    and "\<forall>s. js_prop body ''message'' \<noteq> Some (JStr s)"
  shows "POST w = (Json 400 (ErrorBody ''Message is required''), [])"
  using assms by (auto simp: POST_def split: option.splits jsval.splits)

section \<open>Results\<close>

text \<open>
  C1 does not hold of the handler. The check of lines 211 to 220 leaves a statement
  alone when it mentions \<open>user_id\<close> without any \<open>where\<close>, and the auxiliary statement is
  never checked: for user \<open>user_1\<close> on the properties page, with models that answer in
  bare SQL, both statements reach the executor as generated, and neither names the user.
\<close>

theorem unscoped_statements_reach_executor:
  "currentUser page_world = Inr (Some ''user_1'') \<and>
   sql_model page_world ''gemini-pro''
     (sqlGenerationPrompt page_world ''user_1'' ''How many properties do I have?'') =
       Inr ''SELECT user_id, address FROM properties'' \<and>
   auto_model page_world ''gemini-pro'' (autoQueryPrompt page_world ''user_1'' (JStr ''properties'')) =
       Inr ''SELECT * FROM properties'' \<and>
   RunQuery Primary ''SELECT user_id, address FROM properties'' \<in> set (snd (POST page_world)) \<and>
   RunQuery Auxiliary ''SELECT * FROM properties'' \<in> set (snd (POST page_world)) \<and>
   \<not> str_includes ''SELECT user_id, address FROM properties'' ''user_1'' \<and>
   \<not> str_includes ''SELECT * FROM properties'' ''user_1''"
  by code_simp

text \<open>
  C2. A statement that contains \<open>insert\<close>, \<open>update\<close> or \<open>delete\<close>, in any letter case,
  is never passed to the query executor on the auxiliary (page-context) path, whatever
  the collaborators do.
\<close>

theorem auxiliary_mutation_guard:
  assumes "str_includes (toLowerCase q) ''insert'' \<or> str_includes (toLowerCase q) ''update'' \<or>
           str_includes (toLowerCase q) ''delete''"
  shows "RunQuery Auxiliary q \<notin> set (snd (POST w))"
proof
  assume "RunQuery Auxiliary q \<in> set (snd (POST w))"
  from POST_events [OF this] have "mutation_free q" by (auto simp: handler_event_def)
  with assms show False by (auto simp: mutation_free_def)
qed

theorem auxiliary_mutation_guard_witness:
  "extract_auto_sql mutating_world ''DELETE FROM properties'' = JStr ''DELETE FROM properties'' \<and>
   str_includes (toLowerCase ''DELETE FROM properties'') ''delete'' \<and>
   RunQuery Auxiliary ''DELETE FROM properties'' \<notin> set (snd (POST mutating_world))"
proof -
  have h: "str_includes (toLowerCase ''DELETE FROM properties'') ''delete''" by code_simp
  have x: "extract_auto_sql mutating_world ''DELETE FROM properties'' = JStr ''DELETE FROM properties''"
    by code_simp
  from x h auxiliary_mutation_guard [of "''DELETE FROM properties''" mutating_world]
  show ?thesis by blast
qed




text \<open>
  C4. A request that asks for streaming never reads the cache. A request that does not,
  and finds an entry in the cache, is answered with the stored text and \<open>cached = true\<close>,
  and the cache read is the only call the handler makes: nothing is generated.
\<close>

theorem cache_skipped_when_streaming:
  "(request_json w = Inr body \<and> use_streaming body \<longrightarrow>
      (\<forall>uid msg. CacheGet uid msg \<notin> set (snd (POST w)))) \<and>
   (currentUser w = Inr (Some uid) \<and> env_set (GEMINI_API_KEY w) \<and> request_json w = Inr body \<and>
    body \<noteq> JNull \<and> js_prop body ''message'' = Some (JStr message) \<and> message \<noteq> [] \<and>
    \<not> use_streaming body \<and> getCachedResponse w uid message = Some entry \<longrightarrow>
      snd (POST w) = [CacheGet uid message] \<and>
      (\<exists>d. fst (POST w) =
         Json 200 (ReplyBody \<lparr>reply = entry_response entry, cached = True, debug = d, dataInfo = None\<rparr>)))"
proof (intro conjI impI allI)
  fix u m
  assume a: "request_json w = Inr body \<and> use_streaming body"
  show "CacheGet u m \<notin> set (snd (POST w))"
  proof
    assume "CacheGet u m \<in> set (snd (POST w))"
    from POST_events [OF this] a show False by (auto simp: handler_event_def)
  qed
next
  assume a: "currentUser w = Inr (Some uid) \<and> env_set (GEMINI_API_KEY w) \<and> request_json w = Inr body \<and>
    body \<noteq> JNull \<and> js_prop body ''message'' = Some (JStr message) \<and> message \<noteq> [] \<and>
    \<not> use_streaming body \<and> getCachedResponse w uid message = Some entry"
  then have p: "POST w = (cached_response w entry, [CacheGet uid message])"
    by (cases body) (auto simp: POST_def answer_message_def)
  then show "snd (POST w) = [CacheGet uid message]" by simp
  from p show "\<exists>d. fst (POST w) =
         Json 200 (ReplyBody \<lparr>reply = entry_response entry, cached = True, debug = d, dataInfo = None\<rparr>)"
    by (simp add: cached_response_def)
qed

theorem cache_skipped_when_streaming_witness:
  "(\<forall>uid msg. CacheGet uid msg \<notin> set (snd (POST streamed_world))) \<and>
   fst (POST streamed_world) = TextStream \<and>
   snd (POST cached_world) = [CacheGet ''user_1'' ''How many properties do I have?''] \<and>
   (\<exists>d. fst (POST cached_world) =
      Json 200 (ReplyBody \<lparr>reply = ''You have 3 properties.'', cached = True, debug = d, dataInfo = None\<rparr>))"
proof -
  have s: "request_json streamed_world = Inr streamed_question \<and> use_streaming streamed_question"
    by (simp add: streamed_world_def coach_world_def streamed_question_def use_streaming_def)
  have c: "currentUser cached_world = Inr (Some ''user_1'') \<and> env_set (GEMINI_API_KEY cached_world) \<and>
      request_json cached_world = Inr question \<and> question \<noteq> JNull \<and>
      js_prop question ''message'' = Some (JStr ''How many properties do I have?'') \<and>
      ''How many properties do I have?'' \<noteq> [] \<and> \<not> use_streaming question \<and>
      getCachedResponse cached_world ''user_1'' ''How many properties do I have?'' = Some stored_entry"
    by (simp add: cached_world_def coach_world_def question_def use_streaming_def env_set_def)
  have t: "fst (POST streamed_world) = TextStream" by code_simp
  have e: "entry_response stored_entry = ''You have 3 properties.''" by (simp add: stored_entry_def)
  from s c t e
    cache_skipped_when_streaming [of streamed_world streamed_question "''user_1''"
      "''How many properties do I have?''" stored_entry]
    cache_skipped_when_streaming [of cached_world question "''user_1''"
      "''How many properties do I have?''" stored_entry]
  show ?thesis by simp
qed




text \<open>
  C6. When the executor throws on the primary query, or on the auxiliary one, that query
  keeps its text and gets no rows, and the stage ends normally. For the whole request a
  throwing executor is the same as one that returns no rows: response and calls are
  those of the world in which every failing execution yields the empty result set.
\<close>

theorem executor_failure_not_fatal:
  "(generate_sql w m (sqlGenerationPrompt w uid msg) = (Inr sqlResponse, evs) \<and>
    extract_sql w sqlResponse = JStr q \<and> runSupabaseQuery w (ensure_user_filter uid q) = Inl err \<longrightarrow>
      primary_query w uid m msg =
        (JStr (ensure_user_filter uid q), [], evs @ [RunQuery Primary (ensure_user_filter uid q)])) \<and>
   (auto_model w m (autoQueryPrompt w uid pc) = Inr text \<and> extract_auto_sql w text = JStr a \<and>
    a \<noteq> [] \<and> mutation_free a \<and> runSupabaseQuery w a = Inl err \<longrightarrow>
      auto_query w uid m pc =
        (JStr a, [], [Generate ContextQuery m (autoQueryPrompt w uid pc), RunQuery Auxiliary a])) \<and>
   runSupabaseQuery (executor_failures_as_empty w) sql =
     (case runSupabaseQuery w sql of Inl err \<Rightarrow> Inr [] | Inr rows \<Rightarrow> Inr rows) \<and>
   POST w = POST (executor_failures_as_empty w)"
  by (simp add: primary_query_def auto_query_def runSupabaseQuery_absorbed POST_absorbed)

theorem executor_failure_not_fatal_witness:
  "runSupabaseQuery failing_db_world ''SELECT user_id, address FROM properties'' =
     Inl ''Failed to execute SQL query: connection refused'' \<and>
   primary_query failing_db_world ''user_1'' ''gemini-pro'' ''Hi'' =
     (JStr ''SELECT user_id, address FROM properties'', [],
      [Generate SqlGeneration ''gemini-pro'' (sqlGenerationPrompt failing_db_world ''user_1'' ''Hi''),
       RunQuery Primary ''SELECT user_id, address FROM properties'']) \<and>
   auto_query failing_db_world ''user_1'' ''gemini-pro'' (JStr ''properties'') =
     (JStr ''SELECT * FROM properties'', [],
      [Generate ContextQuery ''gemini-pro''
         (autoQueryPrompt failing_db_world ''user_1'' (JStr ''properties'')),
       RunQuery Auxiliary ''SELECT * FROM properties'']) \<and>
   POST failing_db_world = POST (executor_failures_as_empty failing_db_world) \<and>
   status (fst (POST failing_db_world)) = 200"
proof -
  let ?w = failing_db_world
  let ?q = "''SELECT user_id, address FROM properties''" and ?a = "''SELECT * FROM properties''"
  have g: "generate_sql ?w ''gemini-pro'' (sqlGenerationPrompt ?w ''user_1'' ''Hi'') =
      (Inr ?q, [Generate SqlGeneration ''gemini-pro'' (sqlGenerationPrompt ?w ''user_1'' ''Hi'')])"
    by (simp add: generate_sql_def failing_db_world_def page_world_def coach_world_def)
  have x: "extract_sql ?w ?q = JStr ?q" by code_simp
  have f: "ensure_user_filter ''user_1'' ?q = ?q" by code_simp
  have r: "runSupabaseQuery ?w s = Inl ''Failed to execute SQL query: connection refused''" for s
    by (simp add: runSupabaseQuery_def failing_db_world_def page_world_def coach_world_def env_or_def)
  have am: "auto_model ?w ''gemini-pro'' (autoQueryPrompt ?w ''user_1'' (JStr ''properties'')) = Inr ?a"
    by (simp add: failing_db_world_def page_world_def coach_world_def)
  have ax: "extract_auto_sql ?w ?a = JStr ?a" by code_simp
  have mf: "?a \<noteq> [] \<and> mutation_free ?a" by code_simp
  have st: "status (fst (POST ?w)) = 200" by code_simp
  from g x f r am ax mf st
    executor_failure_not_fatal [of ?w "''gemini-pro''" "''user_1''" "''Hi''" ?q _ ?q
      "''Failed to execute SQL query: connection refused''" "JStr ''properties''" ?a ?a ?q]
  show ?thesis by simp
qed

text \<open>
  C7. When the SQL generation call fails with a model-not-found error and every
  alternative model fails too, the primary query is the empty string with no rows, the
  executor is never called for the primary query, and the request, if its page context
  is a string or absent, goes on to call the synthesis model.
\<close>

theorem sql_generation_exhausted_degrades:
  assumes "accepted w uid body message"
    and "text_or_absent (or_null (js_prop body ''pageContext''))"
    and "sql_model w (modelName w) (sqlGenerationPrompt w uid message) = Inl errorMsg"
    and "model_not_found errorMsg"
    and "\<forall>a \<in> set altModels. \<exists>err. sql_alt_model w a (sqlGenerationPrompt w uid message) = Inl err"
  shows "(\<exists>evs. primary_query w uid (modelName w) message = (JStr [], [], evs)) \<and>
         (\<forall>q. RunQuery Primary q \<notin> set (snd (POST w))) \<and>
         (\<exists>p. (if use_streaming body then GenerateStream (modelName w) p
               else Generate Synthesis (modelName w) p) \<in> set (snd (POST w)))"
proof -
  let ?pc = "or_null (js_prop body ''pageContext'')" and ?pd = "or_null (js_prop body ''pageData'')"
  let ?p = "sqlGenerationPrompt w uid message"
  from generate_sql_exhausted [OF assms(3-5)] obtain msg where
    g: "generate_sql w (modelName w) ?p =
          (Inl (Error msg), Generate SqlGeneration (modelName w) ?p #
             map (\<lambda>a. Generate SqlGeneration a ?p) altModels)" by blast
  let ?evs1 = "Generate SqlGeneration (modelName w) ?p # map (\<lambda>a. Generate SqlGeneration a ?p) altModels"
  have p: "primary_query w uid (modelName w) message = (JStr [], [], ?evs1)"
    by (rule primary_query_generation_failed [OF g])
  obtain r evs where ga: "generate_answer w uid message (use_streaming body) ?pc ?pd = (r, evs)"
    by (cases "generate_answer w uid message (use_streaming body) ?pc ?pd")
  have tr: "snd (POST w) = (if use_streaming body then [] else [CacheGet uid message]) @ evs"
    using POST_accepted [OF assms(1)] ga by simp
  have no: "RunQuery Primary q \<notin> set (snd (POST w))" for q
  proof
    assume "RunQuery Primary q \<in> set (snd (POST w))"
    with tr have "RunQuery Primary q \<in> set evs" by (auto split: if_splits)
    from generate_answer_primary_calls [OF ga p this] show False by auto
  qed
  from generate_answer_reaches_synthesis [OF ga assms(2)] tr
  have "\<exists>p. (if use_streaming body then GenerateStream (modelName w) p
             else Generate Synthesis (modelName w) p) \<in> set (snd (POST w))"
    by (auto split: if_splits)
  with p no show ?thesis by blast
qed

theorem sql_generation_exhausted_degrades_witness:
  "(\<exists>evs. primary_query exhausted_sql_world ''user_1'' (modelName exhausted_sql_world)
            ''How many properties do I have?'' = (JStr [], [], evs)) \<and>
   (\<forall>q. RunQuery Primary q \<notin> set (snd (POST exhausted_sql_world))) \<and>
   (\<exists>p. Generate Synthesis (modelName exhausted_sql_world) p \<in> set (snd (POST exhausted_sql_world)))"
proof -
  let ?w = exhausted_sql_world and ?m = "''How many properties do I have?''"
  have 1: "accepted ?w ''user_1'' question ?m"
    by (simp add: accepted_def exhausted_sql_world_def coach_world_def question_def env_set_def)
  have 2: "text_or_absent (or_null (js_prop question ''pageContext''))"
    by (simp add: question_def or_null_def text_or_absent_def)
  have 3: "sql_model ?w (modelName ?w) (sqlGenerationPrompt ?w ''user_1'' ?m) = Inl ''404 model not found''"
    by (simp add: exhausted_sql_world_def coach_world_def)
  have 4: "model_not_found ''404 model not found''"
    by (simp add: model_not_found_def)
  have 5: "\<forall>a \<in> set altModels. \<exists>err. sql_alt_model ?w a (sqlGenerationPrompt ?w ''user_1'' ?m) = Inl err"
    by (simp add: exhausted_sql_world_def coach_world_def)
  have 6: "\<not> use_streaming question" by (simp add: use_streaming_def question_def)
  from sql_generation_exhausted_degrades [OF 1 2 3 4 5] 6 show ?thesis by simp
qed

text \<open>
  C8. A request that reaches generation and asks for streaming enqueues and closes
  nothing before the streaming call. When the stream cannot be opened, the request is
  answered in buffered mode: the buffered synthesis follows the streaming call, and the
  text of the synthesis model, when it answers, is the reply. When the stream opens,
  the response is the stream, and the calls end with the fragments forwarded in order,
  then the error text if the stream fails and the cache write if it does not, and last
  the one close. The body of a stream closes its channel exactly once, as its last act,
  and a run of the handler closes the channel once if it answers with a stream, and
  never otherwise.
\<close>

theorem streaming_delivery:
  "(accepted w uid body message \<and> use_streaming body \<and>
    text_or_absent (or_null (js_prop body ''pageContext'')) \<and>
    primary_query w uid (modelName w) message = (sqlQuery, queryResults, evs1) \<longrightarrow>
      (\<exists>P pre.
         Close \<notin> set pre \<and> (\<forall>t. Enqueue t \<notin> set pre) \<and> synthesis_prompts pre = [] \<and>
         (case answer_stream w (modelName w) P of
            Inl err \<Rightarrow>
              (case buffered_response w uid (modelName w) message P sqlQuery queryResults of
                 (r, evs) \<Rightarrow>
                   POST w = ((case r of Inl e \<Rightarrow> error_response w e | Inr resp \<Rightarrow> resp),
                             pre @ GenerateStream (modelName w) P # evs)) \<and>
              (\<forall>answer. answer_model w (modelName w) P = Inr answer \<longrightarrow>
                 POST w =
                   (Json 200 (ReplyBody \<lparr>reply = answer, cached = False, debug = None,
                                          dataInfo = Some (data_info_of sqlQuery queryResults)\<rparr>),
                    pre @ [GenerateStream (modelName w) P, Generate Synthesis (modelName w) P,
                           CacheSet uid message answer (or_undefined sqlQuery) (length queryResults)]))
          | Inr (chunks, failure) \<Rightarrow>
              POST w =
                (TextStream,
                 pre @ GenerateStream (modelName w) P # map Enqueue (forwarded chunks) @
                 [case failure of
                    None \<Rightarrow> CacheSet uid message (concat (forwarded chunks)) (or_undefined sqlQuery)
                              (length queryResults)
                  | Some err \<Rightarrow> Enqueue (nl @ nl @ ''Error: '' @ err),
                  Close])))) \<and>
   (answer_stream w m p = Inl err \<longrightarrow>
      synthesize w uid m msg True p q rows =
        (case buffered_response w uid m msg p q rows of (r, evs) \<Rightarrow> (r, GenerateStream m p # evs))) \<and>
   stream_start uid msg q rows (chunks, Some failure) =
     snd (forward_chunks chunks []) @ [Enqueue (nl @ nl @ ''Error: '' @ failure), Close] \<and>
   count_list (stream_start uid msg q rows st) Close = 1 \<and>
   last (stream_start uid msg q rows st) = Close \<and>
   count_list (snd (POST w)) Close = (if fst (POST w) = TextStream then 1 else 0)"
proof -
  have main: "\<exists>P pre.
         Close \<notin> set pre \<and> (\<forall>t. Enqueue t \<notin> set pre) \<and> synthesis_prompts pre = [] \<and>
         (case answer_stream w (modelName w) P of
            Inl err \<Rightarrow>
              (case buffered_response w uid (modelName w) message P sqlQuery queryResults of
                 (r, evs) \<Rightarrow>
                   POST w = ((case r of Inl e \<Rightarrow> error_response w e | Inr resp \<Rightarrow> resp),
                             pre @ GenerateStream (modelName w) P # evs)) \<and>
              (\<forall>answer. answer_model w (modelName w) P = Inr answer \<longrightarrow>
                 POST w =
                   (Json 200 (ReplyBody \<lparr>reply = answer, cached = False, debug = None,
                                          dataInfo = Some (data_info_of sqlQuery queryResults)\<rparr>),
                    pre @ [GenerateStream (modelName w) P, Generate Synthesis (modelName w) P,
                           CacheSet uid message answer (or_undefined sqlQuery) (length queryResults)]))
          | Inr (chunks, failure) \<Rightarrow>
              POST w =
                (TextStream,
                 pre @ GenerateStream (modelName w) P # map Enqueue (forwarded chunks) @
                 [case failure of
                    None \<Rightarrow> CacheSet uid message (concat (forwarded chunks)) (or_undefined sqlQuery)
                              (length queryResults)
                  | Some err \<Rightarrow> Enqueue (nl @ nl @ ''Error: '' @ err),
                  Close]))"
    if a: "accepted w uid body message" and s: "use_streaming body"
      and t: "text_or_absent (or_null (js_prop body ''pageContext''))"
      and p: "primary_query w uid (modelName w) message = (sqlQuery, queryResults, evs1)"
    using a
  proof (cases rule: accepted_run)
    case (type_error q rows e1 aq arows e2)
    with t show ?thesis by simp
  next
    case (synthesis q' rows' e1 aq arows e2 info r evs3)
    from synthesis(1) p have eq: "q' = sqlQuery" "rows' = queryResults" "e1 = evs1" by simp_all
    let ?P = "analysisPrompt w message info (dataSummary w sqlQuery aq queryResults arows)"
    let ?pre = "ListModels # evs1 @ e2"
    note syn = synthesis(5) [unfolded eq]
    have post: "POST w = ((case r of Inl e \<Rightarrow> error_response w e | Inr resp \<Rightarrow> resp), ?pre @ evs3)"
      using synthesis(6) s eq by simp
    have pre1: "Close \<notin> set ?pre" "\<forall>t. Enqueue t \<notin> set ?pre"
      using p synthesis(2) by (auto split: if_splits dest: primary_query_events auto_query_events)
    have pre2: "synthesis_prompts ?pre = []"
      using primary_query_prompts [OF p] auto_stage_prompts [OF synthesis(2)]
      by (simp add: synthesis_prompts_append)
    have body: "(case answer_stream w (modelName w) ?P of
            Inl err \<Rightarrow>
              (case buffered_response w uid (modelName w) message ?P sqlQuery queryResults of
                 (r, evs) \<Rightarrow>
                   POST w = ((case r of Inl e \<Rightarrow> error_response w e | Inr resp \<Rightarrow> resp),
                             ?pre @ GenerateStream (modelName w) ?P # evs)) \<and>
              (\<forall>answer. answer_model w (modelName w) ?P = Inr answer \<longrightarrow>
                 POST w =
                   (Json 200 (ReplyBody \<lparr>reply = answer, cached = False, debug = None,
                                          dataInfo = Some (data_info_of sqlQuery queryResults)\<rparr>),
                    ?pre @ [GenerateStream (modelName w) ?P, Generate Synthesis (modelName w) ?P,
                           CacheSet uid message answer (or_undefined sqlQuery) (length queryResults)]))
          | Inr (chunks, failure) \<Rightarrow>
              POST w =
                (TextStream,
                 ?pre @ GenerateStream (modelName w) ?P # map Enqueue (forwarded chunks) @
                 [case failure of
                    None \<Rightarrow> CacheSet uid message (concat (forwarded chunks)) (or_undefined sqlQuery)
                              (length queryResults)
                  | Some err \<Rightarrow> Enqueue (nl @ nl @ ''Error: '' @ err),
                  Close]))"
    proof (cases "answer_stream w (modelName w) ?P")
      case (Inl err)
      obtain r' evs' where b: "buffered_response w uid (modelName w) message ?P sqlQuery queryResults = (r', evs')"
        by (cases "buffered_response w uid (modelName w) message ?P sqlQuery queryResults")
      from syn s Inl b have r: "r = r'" "evs3 = GenerateStream (modelName w) ?P # evs'"
        by (simp_all add: synthesize_def)
      have "POST w =
           (Json 200 (ReplyBody \<lparr>reply = answer, cached = False, debug = None,
                                  dataInfo = Some (data_info_of sqlQuery queryResults)\<rparr>),
            ?pre @ [GenerateStream (modelName w) ?P, Generate Synthesis (modelName w) ?P,
                   CacheSet uid message answer (or_undefined sqlQuery) (length queryResults)])"
        if "answer_model w (modelName w) ?P = Inr answer" for answer
        using buffered_response_answered [OF that, of uid message sqlQuery queryResults] b r post
        by simp
      with Inl b r post show ?thesis by simp
    next
      case (Inr st)
      obtain chunks failure where st: "st = (chunks, failure)" by (cases st)
      from syn s Inr have "r = Inr TextStream"
          "evs3 = GenerateStream (modelName w) ?P # stream_start uid message sqlQuery queryResults st"
        by (simp_all add: synthesize_def)
      with Inr st post show ?thesis by (simp add: stream_start_forwarded)
    qed
    from pre1 pre2 body show ?thesis by blast
  qed
  show ?thesis
    using main
    by (simp add: synthesize_def stream_start_shape stream_start_closes_once POST_closes)
qed

theorem streaming_delivery_witness:
  "(\<exists>P pre. Close \<notin> set pre \<and> (\<forall>t. Enqueue t \<notin> set pre) \<and>
      POST broken_stream_world =
        (TextStream,
         pre @ [GenerateStream ''gemini-pro'' P, Enqueue ''You have '',
                Enqueue (nl @ nl @ ''Error: socket hang up''), Close])) \<and>
   (\<exists>P pre. Close \<notin> set pre \<and> (\<forall>t. Enqueue t \<notin> set pre) \<and>
      POST streamed_world =
        (TextStream,
         pre @ [GenerateStream ''gemini-pro'' P, Enqueue ''You have '', Enqueue ''3 properties.'',
                CacheSet ''user_1'' ''How many properties do I have?'' ''You have 3 properties.''
                  (Some (JStr ''SELECT user_id, address FROM properties'')) 1,
                Close])) \<and>
   (\<exists>P pre. Close \<notin> set pre \<and> (\<forall>t. Enqueue t \<notin> set pre) \<and>
      POST unopened_stream_world =
        (Json 200 (ReplyBody \<lparr>reply = ''You have 3 properties.'', cached = False, debug = None,
           dataInfo = Some (data_info_of (JStr ''SELECT user_id, address FROM properties'')
                              [JObj [(''address'', JStr ''1 Main St'')]])\<rparr>),
         pre @ [GenerateStream ''gemini-pro'' P, Generate Synthesis ''gemini-pro'' P,
                CacheSet ''user_1'' ''How many properties do I have?'' ''You have 3 properties.''
                  (Some (JStr ''SELECT user_id, address FROM properties'')) 1])) \<and>
   answer_stream unopened_stream_world ''gemini-pro'' ''Advise.'' = Inl ''503 unavailable'' \<and>
   synthesize unopened_stream_world ''user_1'' ''gemini-pro'' ''Hi'' True ''Advise.'' (JStr []) [] =
     (Inr (Json 200 (ReplyBody \<lparr>reply = ''You have 3 properties.'', cached = False, debug = None,
                                 dataInfo = Some (data_info_of (JStr []) [])\<rparr>)),
      [GenerateStream ''gemini-pro'' ''Advise.'', Generate Synthesis ''gemini-pro'' ''Advise.'',
       CacheSet ''user_1'' ''Hi'' ''You have 3 properties.'' None 0]) \<and>
   stream_start ''user_1'' ''Hi'' (JStr []) [] ([Some ''You have ''], Some ''socket hang up'') =
     [Enqueue ''You have '', Enqueue (nl @ nl @ ''Error: socket hang up''), Close] \<and>
   fst (POST broken_stream_world) = TextStream \<and>
   count_list (snd (POST broken_stream_world)) Close = 1"
proof -
  let ?m = "''How many properties do I have?''"
  let ?q = "''SELECT user_id, address FROM properties''"
  let ?rows = "[JObj [(''address'', JStr ''1 Main St'')]]"
  have f: "ensure_user_filter ''user_1'' ?q = ?q" by code_simp
  have s: "use_streaming streamed_question"
    by (simp add: streamed_question_def use_streaming_def)
  have t: "text_or_absent (or_null (js_prop streamed_question ''pageContext''))"
    by (simp add: streamed_question_def or_null_def text_or_absent_def)
  have ou: "or_undefined (JStr ?q) = Some (JStr ?q)" by (simp add: or_undefined_def)
  have broken: "\<exists>P pre. Close \<notin> set pre \<and> (\<forall>t. Enqueue t \<notin> set pre) \<and>
      POST broken_stream_world =
        (TextStream,
         pre @ [GenerateStream ''gemini-pro'' P, Enqueue ''You have '',
                Enqueue (nl @ nl @ ''Error: socket hang up''), Close])"
  proof -
    let ?w = broken_stream_world
    have mn: "modelName ?w = ''gemini-pro''"
      by (simp add: modelName_def availableModel_def broken_stream_world_def streamed_world_def coach_world_def)
    have acc: "accepted ?w ''user_1'' streamed_question ?m"
      by (simp add: accepted_def broken_stream_world_def streamed_world_def coach_world_def
          streamed_question_def env_set_def use_streaming_def)
    have x: "extract_sql ?w ?q = JStr ?q" by code_simp
    have r: "runSupabaseQuery ?w sql = Inr ?rows" for sql
      by (simp add: runSupabaseQuery_def broken_stream_world_def streamed_world_def coach_world_def env_or_def)
    have sm: "sql_model ?w model prompt = Inr ?q" for model prompt
      by (simp add: broken_stream_world_def streamed_world_def coach_world_def)
    have st: "answer_stream ?w model prompt = Inr ([Some ''You have ''], Some ''socket hang up'')"
      for model prompt
      by (simp add: broken_stream_world_def streamed_world_def coach_world_def)
    have p: "primary_query ?w ''user_1'' (modelName ?w) ?m =
        (JStr ?q, ?rows,
         [Generate SqlGeneration (modelName ?w) (sqlGenerationPrompt ?w ''user_1'' ?m),
          RunQuery Primary ?q])"
      by (simp add: primary_query_def generate_sql_def sm x f r)
    from streaming_delivery [where w = "?w" and uid = "''user_1''" and body = streamed_question
        and message = ?m and sqlQuery = "JStr ?q" and queryResults = ?rows
        and ?evs1.0 = "[Generate SqlGeneration (modelName ?w) (sqlGenerationPrompt ?w ''user_1'' ?m),
          RunQuery Primary ?q]", THEN conjunct1]
      acc s t p
    have "\<exists>P pre. Close \<notin> set pre \<and> (\<forall>t. Enqueue t \<notin> set pre) \<and>
        synthesis_prompts pre = [] \<and>
        POST ?w =
          (TextStream,
           pre @ [GenerateStream ''gemini-pro'' P, Enqueue ''You have '',
                Enqueue (nl @ nl @ ''Error: socket hang up''), Close])"
      by (simp add: st mn forwarded_def List.map_filter_simps)
    then show ?thesis by blast
  qed
  have whole: "\<exists>P pre. Close \<notin> set pre \<and> (\<forall>t. Enqueue t \<notin> set pre) \<and>
      POST streamed_world =
        (TextStream,
         pre @ [GenerateStream ''gemini-pro'' P, Enqueue ''You have '', Enqueue ''3 properties.'',
                CacheSet ''user_1'' ?m ''You have 3 properties.'' (Some (JStr ?q)) 1, Close])"
  proof -
    let ?w = streamed_world
    have mn: "modelName ?w = ''gemini-pro''"
      by (simp add: modelName_def availableModel_def streamed_world_def coach_world_def)
    have acc: "accepted ?w ''user_1'' streamed_question ?m"
      by (simp add: accepted_def streamed_world_def coach_world_def
          streamed_question_def env_set_def use_streaming_def)
    have x: "extract_sql ?w ?q = JStr ?q" by code_simp
    have r: "runSupabaseQuery ?w sql = Inr ?rows" for sql
      by (simp add: runSupabaseQuery_def streamed_world_def coach_world_def env_or_def)
    have sm: "sql_model ?w model prompt = Inr ?q" for model prompt
      by (simp add: streamed_world_def coach_world_def)
    have st: "answer_stream ?w model prompt = Inr ([Some ''You have '', Some ''3 properties.''], None)"
      for model prompt
      by (simp add: streamed_world_def coach_world_def)
    have p: "primary_query ?w ''user_1'' (modelName ?w) ?m =
        (JStr ?q, ?rows,
         [Generate SqlGeneration (modelName ?w) (sqlGenerationPrompt ?w ''user_1'' ?m),
          RunQuery Primary ?q])"
      by (simp add: primary_query_def generate_sql_def sm x f r)
    from streaming_delivery [where w = "?w" and uid = "''user_1''" and body = streamed_question
        and message = ?m and sqlQuery = "JStr ?q" and queryResults = ?rows
        and ?evs1.0 = "[Generate SqlGeneration (modelName ?w) (sqlGenerationPrompt ?w ''user_1'' ?m),
          RunQuery Primary ?q]", THEN conjunct1]
      acc s t p
    have "\<exists>P pre. Close \<notin> set pre \<and> (\<forall>t. Enqueue t \<notin> set pre) \<and>
        synthesis_prompts pre = [] \<and>
        POST ?w =
          (TextStream,
           pre @ [GenerateStream ''gemini-pro'' P, Enqueue ''You have '', Enqueue ''3 properties.'',
                CacheSet ''user_1'' ?m ''You have 3 properties.'' (Some (JStr ?q)) 1, Close])"
      by (simp add: st mn ou forwarded_def List.map_filter_simps)
    then show ?thesis by blast
  qed
  have unopened: "\<exists>P pre. Close \<notin> set pre \<and> (\<forall>t. Enqueue t \<notin> set pre) \<and>
      POST unopened_stream_world =
        (Json 200 (ReplyBody \<lparr>reply = ''You have 3 properties.'', cached = False, debug = None,
           dataInfo = Some (data_info_of (JStr ?q) ?rows)\<rparr>),
         pre @ [GenerateStream ''gemini-pro'' P, Generate Synthesis ''gemini-pro'' P,
                CacheSet ''user_1'' ?m ''You have 3 properties.'' (Some (JStr ?q)) 1])"
  proof -
    let ?w = unopened_stream_world
    have mn: "modelName ?w = ''gemini-pro''"
      by (simp add: modelName_def availableModel_def unopened_stream_world_def streamed_world_def coach_world_def)
    have acc: "accepted ?w ''user_1'' streamed_question ?m"
      by (simp add: accepted_def unopened_stream_world_def streamed_world_def coach_world_def
          streamed_question_def env_set_def use_streaming_def)
    have x: "extract_sql ?w ?q = JStr ?q" by code_simp
    have r: "runSupabaseQuery ?w sql = Inr ?rows" for sql
      by (simp add: runSupabaseQuery_def unopened_stream_world_def streamed_world_def coach_world_def env_or_def)
    have sm: "sql_model ?w model prompt = Inr ?q" for model prompt
      by (simp add: unopened_stream_world_def streamed_world_def coach_world_def)
    have st: "answer_stream ?w model prompt = Inl ''503 unavailable''"
      for model prompt
      by (simp add: unopened_stream_world_def streamed_world_def coach_world_def)
    have am: "answer_model ?w model prompt = Inr ''You have 3 properties.''" for model prompt
      by (simp add: unopened_stream_world_def streamed_world_def coach_world_def)
    have p: "primary_query ?w ''user_1'' (modelName ?w) ?m =
        (JStr ?q, ?rows,
         [Generate SqlGeneration (modelName ?w) (sqlGenerationPrompt ?w ''user_1'' ?m),
          RunQuery Primary ?q])"
      by (simp add: primary_query_def generate_sql_def sm x f r)
    from streaming_delivery [where w = "?w" and uid = "''user_1''" and body = streamed_question
        and message = ?m and sqlQuery = "JStr ?q" and queryResults = ?rows
        and ?evs1.0 = "[Generate SqlGeneration (modelName ?w) (sqlGenerationPrompt ?w ''user_1'' ?m),
          RunQuery Primary ?q]", THEN conjunct1]
      acc s t p
    have "\<exists>P pre. Close \<notin> set pre \<and> (\<forall>t. Enqueue t \<notin> set pre) \<and>
        synthesis_prompts pre = [] \<and>
        POST ?w =
          (Json 200 (ReplyBody \<lparr>reply = ''You have 3 properties.'', cached = False, debug = None,
           dataInfo = Some (data_info_of (JStr ?q) ?rows)\<rparr>),
           pre @ [GenerateStream ''gemini-pro'' P, Generate Synthesis ''gemini-pro'' P,
                CacheSet ''user_1'' ?m ''You have 3 properties.'' (Some (JStr ?q)) 1])"
      by (simp add: st am mn ou) blast
    then show ?thesis by blast
  qed
  have a: "answer_stream unopened_stream_world ''gemini-pro'' ''Advise.'' = Inl ''503 unavailable''"
    by (simp add: unopened_stream_world_def streamed_world_def coach_world_def)
  have b: "buffered_response unopened_stream_world ''user_1'' ''gemini-pro'' ''Hi'' ''Advise.'' (JStr []) [] =
     (Inr (Json 200 (ReplyBody \<lparr>reply = ''You have 3 properties.'', cached = False, debug = None,
                                 dataInfo = Some (data_info_of (JStr []) [])\<rparr>)),
      [Generate Synthesis ''gemini-pro'' ''Advise.'',
       CacheSet ''user_1'' ''Hi'' ''You have 3 properties.'' None 0])"
    by (simp add: buffered_response_def buffered_reply_def unopened_stream_world_def
        streamed_world_def coach_world_def or_undefined_def)
  have c: "fst (POST broken_stream_world) = TextStream" using broken by auto
  from a b
    streaming_delivery [where w = unopened_stream_world and m = "''gemini-pro''" and p = "''Advise.''"
      and err = "''503 unavailable''" and uid = "''user_1''" and msg = "''Hi''" and q = "JStr []"
      and rows = "[]" and chunks = "[Some ''You have '']" and failure = "''socket hang up''"
      and st = "([Some ''You have ''], Some ''socket hang up'')", THEN conjunct2]
  have d: "synthesize unopened_stream_world ''user_1'' ''gemini-pro'' ''Hi'' True ''Advise.'' (JStr []) [] =
     (Inr (Json 200 (ReplyBody \<lparr>reply = ''You have 3 properties.'', cached = False, debug = None,
                                 dataInfo = Some (data_info_of (JStr []) [])\<rparr>)),
      [GenerateStream ''gemini-pro'' ''Advise.'', Generate Synthesis ''gemini-pro'' ''Advise.'',
       CacheSet ''user_1'' ''Hi'' ''You have 3 properties.'' None 0]) \<and>
   stream_start ''user_1'' ''Hi'' (JStr []) [] ([Some ''You have ''], Some ''socket hang up'') =
     [Enqueue ''You have '', Enqueue (nl @ nl @ ''Error: socket hang up''), Close]"
    by simp
  from streaming_delivery [of broken_stream_world] c
  have e: "count_list (snd (POST broken_stream_world)) Close = 1" by simp
  from broken whole unopened a c d e show ?thesis by blast
qed

text \<open>
  C9 does not hold of the handler. The check of line 60 answers 400 to a body without a
  \<open>message\<close>, as for the body \<open>{stream: false}\<close>. The body \<open>null\<close> has no \<open>message\<close>
  either, but the destructuring of lines 52 to 58 throws on it before the check is
  reached: the request ends in the outermost \<open>catch\<close> with status 500, as it does for a
  body that is not JSON.
\<close>

theorem null_body_server_error:
  "js_prop JNull ''message'' = None \<and>
   POST null_body_world =
     (Json 500 (ErrorBody (''Cannot destructure property '' @ sq @ ''message'' @ sq @ '' of '' @
                           sq @ ''body'' @ sq @ '' as it is null.'')), []) \<and>
   POST unreadable_body_world = (Json 500 (ErrorBody ''Unexpected end of JSON input''), []) \<and>
   POST no_message_world = (Json 400 (ErrorBody ''Message is required''), [])"
  by code_simp

text \<open>
  C10. With neither \<open>DATABASE_URL\<close> nor \<open>SUPABASE_DB_URL\<close> set, the executor throws on
  every statement, both queries end with no rows, and the handler answers exactly as it
  would with a database that returns no rows: a request that reaches generation, does
  not stream and whose synthesis model answers gets a 200 reply that reports no data.
  The missing API key, in contrast, ends an authenticated request with status 500.
\<close>

theorem missing_database_url_degrades:
  assumes "\<not> env_set (DATABASE_URL w)" and "\<not> env_set (SUPABASE_DB_URL w)"
  shows "(\<forall>sql. \<exists>msg. runSupabaseQuery w sql = Inl msg) \<and>
         (\<forall>u m msg. fst (snd (primary_query w u m msg)) = []) \<and>
         (\<forall>u m pc. fst (snd (auto_query w u m pc)) = []) \<and>
         POST w = POST (w\<lparr>DATABASE_URL := Some ''postgresql://db'',
                            pool_query := (\<lambda>dbUrl sql. Inr [])\<rparr>) \<and>
         (accepted w uid body message \<and> text_or_absent (or_null (js_prop body ''pageContext'')) \<and>
          \<not> use_streaming body \<and> (\<forall>p. \<exists>t. answer_model w (modelName w) p = Inr t) \<longrightarrow>
            (\<exists>t d. fst (POST w) =
                     Json 200 (ReplyBody \<lparr>reply = t, cached = False, debug = None, dataInfo = Some d\<rparr>) \<and>
                   info_resultCount d = 0 \<and> \<not> hasData d \<and> sampleData d = None)) \<and>
         (currentUser w = Inr (Some uid) \<and> \<not> env_set (GEMINI_API_KEY w) \<longrightarrow>
            fst (POST w) = Json 500 (ErrorBody
              ''Gemini API key not configured. Please set GEMINI_API_KEY in your Vercel environment variables.''))"
proof -
  have thrown: "\<forall>sql. \<exists>msg. runSupabaseQuery w sql = Inl msg"
    using runSupabaseQuery_unconfigured [OF assms] by blast
  have same: "executor_failures_as_empty w =
      w\<lparr>DATABASE_URL := Some ''postgresql://db'', pool_query := (\<lambda>dbUrl sql. Inr [])\<rparr>"
  proof -
    have "(\<lambda>dbUrl sql. case runSupabaseQuery w sql of Inl err \<Rightarrow> Inr [] | Inr rows \<Rightarrow> Inr rows) =
          (\<lambda>dbUrl sql. Inr [])"
    proof (intro ext)
      fix dbUrl :: string and sql
      from thrown obtain msg where "runSupabaseQuery w sql = Inl msg" by blast
      then show "(case runSupabaseQuery w sql of Inl err \<Rightarrow> Inr [] | Inr rows \<Rightarrow> Inr rows) = Inr []"
        by simp
    qed
    then show ?thesis unfolding executor_failures_as_empty_def by (rule arg_cong)
  qed
  have answered: "\<exists>t d. fst (POST w) =
        Json 200 (ReplyBody \<lparr>reply = t, cached = False, debug = None, dataInfo = Some d\<rparr>) \<and>
        info_resultCount d = 0 \<and> \<not> hasData d \<and> sampleData d = None"
    if a: "accepted w uid body message"
      and pc: "text_or_absent (or_null (js_prop body ''pageContext''))"
      and s: "\<not> use_streaming body"
      and m: "\<forall>p. \<exists>t. answer_model w (modelName w) p = Inr t"
  proof -
    obtain q rows evs1 where p: "primary_query w uid (modelName w) message = (q, rows, evs1)"
      by (cases "primary_query w uid (modelName w) message")
    with primary_query_no_rows [OF thrown, of uid "modelName w" message] have "rows = []" by simp
    with generate_answer_buffered [OF p pc m, of "or_null (js_prop body ''pageData'')"]
      POST_accepted [OF a] s
    show ?thesis by (auto simp: data_info_of_def split: prod.splits)
  qed
  have key: "fst (POST w) = Json 500 (ErrorBody
      ''Gemini API key not configured. Please set GEMINI_API_KEY in your Vercel environment variables.'')"
    if "currentUser w = Inr (Some uid)" and "\<not> env_set (GEMINI_API_KEY w)"
    using that by (simp add: POST_def)
  from thrown primary_query_no_rows [OF thrown] auto_query_no_rows [OF thrown]
    POST_absorbed [of w] same answered key
  show ?thesis by simp
qed

theorem missing_database_url_degrades_witness:
  "(\<forall>sql. \<exists>msg. runSupabaseQuery no_database_world sql = Inl msg) \<and>
   accepted no_database_world ''user_1'' page_question ''How many properties do I have?'' \<and>
   text_or_absent (or_null (js_prop page_question ''pageContext'')) \<and>
   \<not> use_streaming page_question \<and>
   fst (POST no_database_world) =
     Json 200 (ReplyBody \<lparr>reply = ''You have 3 properties.'', cached = False, debug = None,
       dataInfo = Some \<lparr>info_sqlQuery = JStr ''SELECT user_id, address FROM properties'',
                         info_resultCount = 0, hasData = False, sampleData = None\<rparr>\<rparr>) \<and>
   fst (POST (no_database_world\<lparr>GEMINI_API_KEY := None\<rparr>)) =
     Json 500 (ErrorBody
       ''Gemini API key not configured. Please set GEMINI_API_KEY in your Vercel environment variables.'')"
proof -
  let ?w = no_database_world and ?v = "no_database_world\<lparr>GEMINI_API_KEY := None\<rparr>"
  have 1: "\<not> env_set (DATABASE_URL ?w)" "\<not> env_set (SUPABASE_DB_URL ?w)"
    "\<not> env_set (DATABASE_URL ?v)" "\<not> env_set (SUPABASE_DB_URL ?v)"
    by (simp_all add: no_database_world_def page_world_def coach_world_def env_set_def)
  have 2: "currentUser ?v = Inr (Some ''user_1'') \<and> \<not> env_set (GEMINI_API_KEY ?v)"
    by (simp add: no_database_world_def page_world_def coach_world_def env_set_def)
  have 3: "fst (POST ?w) =
     Json 200 (ReplyBody \<lparr>reply = ''You have 3 properties.'', cached = False, debug = None,
       dataInfo = Some \<lparr>info_sqlQuery = JStr ''SELECT user_id, address FROM properties'',
                         info_resultCount = 0, hasData = False, sampleData = None\<rparr>\<rparr>)"
    by code_simp
  have 4: "accepted ?w ''user_1'' page_question ''How many properties do I have?'' \<and>
      text_or_absent (or_null (js_prop page_question ''pageContext'')) \<and>
      \<not> use_streaming page_question"
    by (simp add: accepted_def no_database_world_def page_world_def coach_world_def
        page_question_def env_set_def use_streaming_def or_null_def text_or_absent_def)
  from 2 3 4 missing_database_url_degrades [OF 1(1,2)]
    missing_database_url_degrades [OF 1(3,4), of "''user_1''"]
  show ?thesis by blast
qed

end
